theory Spec2Isabelle
  imports Main "HOL-Library.Word"
begin

unbundle bit_operations_syntax

section \<open>Shared memory\<close>

text \<open>
  The driver parses its structures in place, in a memory window shared with the other
  processors. The window is modelled as a byte store indexed by virtual address. Pointers
  and \<open>size_t\<close> are 64 bits wide (the kernel is built for arm64); pointer arithmetic
  wraps, as it does in a kernel built without strict overflow.
\<close>

type_synonym addr = "64 word"
type_synonym memory = "addr \<Rightarrow> 8 word"

text \<open>\<open>le16_to_cpu\<close> and \<open>le32_to_cpu\<close> of a field stored at an address.\<close>

definition read_le16 :: "memory \<Rightarrow> addr \<Rightarrow> 16 word" where
  "read_le16 m a = ucast (m a) OR push_bit 8 (ucast (m (a + 1)))"

definition read_le32 :: "memory \<Rightarrow> addr \<Rightarrow> 32 word" where
  "read_le32 m a = ucast (m a) OR push_bit 8 (ucast (m (a + 1)))
      OR push_bit 16 (ucast (m (a + 2))) OR push_bit 24 (ucast (m (a + 3)))"

text \<open>Storing \<open>cpu_to_le16 v\<close> and \<open>cpu_to_le32 v\<close> into a field.\<close>

definition write_le16 :: "memory \<Rightarrow> addr \<Rightarrow> 16 word \<Rightarrow> memory" where
  "write_le16 m a v = m(a := ucast v, a + 1 := ucast (drop_bit 8 v))"

definition write_le32 :: "memory \<Rightarrow> addr \<Rightarrow> 32 word \<Rightarrow> memory" where
  "write_le32 m a v = m(a := ucast v, a + 1 := ucast (drop_bit 8 v),
      a + 2 := ucast (drop_bit 16 v), a + 3 := ucast (drop_bit 24 v))"

text \<open>\<open>le32_add_cpu(var, val)\<close>: \<open>*var = cpu_to_le32(le32_to_cpu(*var) + val)\<close>.\<close>

definition le32_add_cpu :: "memory \<Rightarrow> addr \<Rightarrow> 32 word \<Rightarrow> memory" where
  "le32_add_cpu m var val = write_le32 m var (read_le32 m var + val)"

text \<open>The four bytes of a magic field; \<open>memcmp\<close> is non-zero when they differ.\<close>

definition read_magic :: "memory \<Rightarrow> addr \<Rightarrow> 8 word list" where
  "read_magic m a = [m a, m (a + 1), m (a + 2), m (a + 3)]"

definition memcmp_magic :: "memory \<Rightarrow> addr \<Rightarrow> 8 word list \<Rightarrow> bool" where
  "memcmp_magic m a magic = (read_magic m a \<noteq> magic)"

section \<open>Constants and macros\<close>

datatype errno = EINVAL | EEXIST | ENOSPC | ENOMEM | ENXIO | ENOENT | EPROBE_DEFER | ETIMEDOUT

definition SMEM_ITEM_LAST_FIXED :: "32 word" where "SMEM_ITEM_LAST_FIXED = 8"
definition SMEM_ITEM_COUNT :: "32 word" where "SMEM_ITEM_COUNT = 512"
definition SMEM_GLOBAL_HOST :: "16 word" where "SMEM_GLOBAL_HOST = 0xfffe"
definition SMEM_HOST_COUNT :: "32 word" where "SMEM_HOST_COUNT = 13"
definition SMEM_PRIVATE_CANARY :: "16 word" where "SMEM_PRIVATE_CANARY = 0xa5a5"
definition AUX_BASE_MASK :: "32 word" where "AUX_BASE_MASK = 0xfffffffc"
definition SZ_4K :: addr where "SZ_4K = 0x1000"
definition SMEM_PTABLE_MAGIC :: "8 word list" where "SMEM_PTABLE_MAGIC = [0x24, 0x54, 0x4f, 0x43]"
definition SMEM_PART_MAGIC :: "8 word list" where "SMEM_PART_MAGIC = [0x24, 0x50, 0x52, 0x54]"
definition SMEM_INFO_MAGIC :: "8 word list" where "SMEM_INFO_MAGIC = [0x53, 0x49, 0x49, 0x49]"

text \<open>
  Modelled from the spec: the kernel macro \<open>ALIGN(x, a)\<close> is declared in a header that is
  not part of the driver file; the spec calls it "rounded up to 8 bytes" and "rounded to
  the partition's cache-line alignment". On \<open>size_t\<close> it is \<open>(x + (a - 1)) & ~(a - 1)\<close>.
\<close>

definition ALIGN :: "addr \<Rightarrow> addr \<Rightarrow> addr" where
  "ALIGN x a = (x + (a - 1)) AND NOT (a - 1)"

text \<open>
  \<open>IN_PARTITION_RANGE(ptr, size, start, end)\<close>: \<open>ptr >= start\<close>, no wrap-around of
  \<open>ptr + size\<close>, and \<open>ptr + size <= end\<close>.
\<close>

definition IN_PARTITION_RANGE :: "addr \<Rightarrow> addr \<Rightarrow> addr \<Rightarrow> addr \<Rightarrow> bool" where
  "IN_PARTITION_RANGE ptr sz start endp =
     (ptr \<ge> start \<and> ptr + sz \<ge> ptr \<and> ptr + sz \<le> endp)"

section \<open>Structures\<close>

text \<open>
  \<open>struct smem_ptable_entry\<close> (48 bytes): offset at 0, size at 4, flags at 8, host0 at 12,
  host1 at 14, cacheline at 16.
\<close>

definition ptable_entry_offset :: "memory \<Rightarrow> addr \<Rightarrow> 32 word" where
  "ptable_entry_offset m entry = read_le32 m entry"
definition ptable_entry_size :: "memory \<Rightarrow> addr \<Rightarrow> 32 word" where
  "ptable_entry_size m entry = read_le32 m (entry + 4)"
definition ptable_entry_host0 :: "memory \<Rightarrow> addr \<Rightarrow> 16 word" where
  "ptable_entry_host0 m entry = read_le16 m (entry + 12)"
definition ptable_entry_host1 :: "memory \<Rightarrow> addr \<Rightarrow> 16 word" where
  "ptable_entry_host1 m entry = read_le16 m (entry + 14)"
definition ptable_entry_cacheline :: "memory \<Rightarrow> addr \<Rightarrow> 32 word" where
  "ptable_entry_cacheline m entry = read_le32 m (entry + 16)"

text \<open>
  \<open>struct smem_ptable\<close>: magic at 0, version at 4, num_entries at 8, entry[] at 32.
\<close>

definition ptable_version :: "memory \<Rightarrow> addr \<Rightarrow> 32 word" where
  "ptable_version m ptable = read_le32 m (ptable + 4)"
definition ptable_num_entries :: "memory \<Rightarrow> addr \<Rightarrow> 32 word" where
  "ptable_num_entries m ptable = read_le32 m (ptable + 8)"
definition ptable_entry :: "addr \<Rightarrow> 32 word \<Rightarrow> addr" where
  "ptable_entry ptable i = ptable + 32 + 48 * ucast i"

text \<open>
  \<open>struct smem_partition_header\<close> (32 bytes): magic at 0, host0 at 4, host1 at 6, size
  at 8, offset_free_uncached at 12, offset_free_cached at 16.
\<close>

definition phdr_host0 :: "memory \<Rightarrow> addr \<Rightarrow> 16 word" where
  "phdr_host0 m phdr = read_le16 m (phdr + 4)"
definition phdr_host1 :: "memory \<Rightarrow> addr \<Rightarrow> 16 word" where
  "phdr_host1 m phdr = read_le16 m (phdr + 6)"
definition phdr_size :: "memory \<Rightarrow> addr \<Rightarrow> 32 word" where
  "phdr_size m phdr = read_le32 m (phdr + 8)"
definition phdr_offset_free_uncached :: "memory \<Rightarrow> addr \<Rightarrow> 32 word" where
  "phdr_offset_free_uncached m phdr = read_le32 m (phdr + 12)"
definition phdr_offset_free_cached :: "memory \<Rightarrow> addr \<Rightarrow> 32 word" where
  "phdr_offset_free_cached m phdr = read_le32 m (phdr + 16)"

text \<open>
  \<open>struct smem_private_entry\<close> (16 bytes): canary at 0, item at 2, size at 4,
  padding_data at 8, padding_hdr at 10. The canary is a native \<open>u16\<close>; its two bytes
  are equal, so the byte order of the read does not matter.
\<close>

definition entry_canary :: "memory \<Rightarrow> addr \<Rightarrow> 16 word" where
  "entry_canary m e = read_le16 m e"
definition entry_item :: "memory \<Rightarrow> addr \<Rightarrow> 16 word" where
  "entry_item m e = read_le16 m (e + 2)"
definition entry_size :: "memory \<Rightarrow> addr \<Rightarrow> 32 word" where
  "entry_size m e = read_le32 m (e + 4)"
definition entry_padding_data :: "memory \<Rightarrow> addr \<Rightarrow> 16 word" where
  "entry_padding_data m e = read_le16 m (e + 8)"
definition entry_padding_hdr :: "memory \<Rightarrow> addr \<Rightarrow> 16 word" where
  "entry_padding_hdr m e = read_le16 m (e + 10)"

text \<open>
  \<open>struct smem_header\<close>: free_offset at 196, available at 200, toc[] at 208;
  \<open>struct smem_global_entry\<close> (16 bytes): allocated at 0, offset at 4, size at 8,
  aux_base at 12.
\<close>

definition header_free_offset :: "addr \<Rightarrow> addr" where
  "header_free_offset header = header + 196"
definition header_available :: "addr \<Rightarrow> addr" where
  "header_available header = header + 200"
definition header_toc :: "addr \<Rightarrow> 32 word \<Rightarrow> addr" where
  "header_toc header item = header + 208 + 16 * ucast item"

text \<open>\<open>struct smem_region\<close> and the handle \<open>struct qcom_smem\<close>. A null pointer is 0.\<close>

record smem_region =
  aux_base :: "32 word"
  virt_base :: addr
  region_size :: "64 word"

record qcom_smem =
  global_partition_entry :: addr
  ptable_entries :: "nat \<Rightarrow> addr"
  item_count :: "32 word"
  regions :: "smem_region list"

section \<open>Pointer helpers\<close>

definition ptable_entry_to_phdr :: "qcom_smem \<Rightarrow> memory \<Rightarrow> addr \<Rightarrow> addr" where
  "ptable_entry_to_phdr smem m entry =
     virt_base (regions smem ! 0) + ucast (ptable_entry_offset m entry)"

definition phdr_to_last_uncached_entry :: "memory \<Rightarrow> addr \<Rightarrow> addr" where
  "phdr_to_last_uncached_entry m phdr = phdr + ucast (phdr_offset_free_uncached m phdr)"

definition phdr_to_first_cached_entry :: "memory \<Rightarrow> addr \<Rightarrow> addr \<Rightarrow> addr" where
  "phdr_to_first_cached_entry m phdr cacheline =
     phdr + ucast (phdr_size m phdr) - ALIGN 16 cacheline"

definition phdr_to_last_cached_entry :: "memory \<Rightarrow> addr \<Rightarrow> addr" where
  "phdr_to_last_cached_entry m phdr = phdr + ucast (phdr_offset_free_cached m phdr)"

definition phdr_to_first_uncached_entry :: "addr \<Rightarrow> addr" where
  "phdr_to_first_uncached_entry phdr = phdr + 32"

definition uncached_entry_next :: "memory \<Rightarrow> addr \<Rightarrow> addr" where
  "uncached_entry_next m e = e + 16 + ucast (entry_padding_hdr m e) + ucast (entry_size m e)"

definition cached_entry_next :: "memory \<Rightarrow> addr \<Rightarrow> addr \<Rightarrow> addr" where
  "cached_entry_next m e cacheline = e - ucast (entry_size m e) - ALIGN 16 cacheline"

definition uncached_entry_to_item :: "memory \<Rightarrow> addr \<Rightarrow> addr" where
  "uncached_entry_to_item m e = e + 16 + ucast (entry_padding_hdr m e)"

definition cached_entry_to_item :: "memory \<Rightarrow> addr \<Rightarrow> addr" where
  "cached_entry_to_item m e = e - ucast (entry_size m e)"

section \<open>Private partitions: allocation\<close>

text \<open>
  A loop that can return from the enclosing function either does so (\<open>Return\<close>) or falls
  through with the final value of its cursor (\<open>Fallthrough\<close>).
\<close>

datatype 'a loop_exit = Return 'a | Fallthrough addr

text \<open>
  The forward walk of \<open>qcom_smem_alloc_private\<close>:
  \<open>while ((hdr < end) && ((hdr + 1) < end))\<close>. The cursor strictly increases towards
  \<open>end\<close>, or the loop returns.
\<close>

function alloc_private_walk :: "memory \<Rightarrow> addr \<Rightarrow> addr \<Rightarrow> 32 word \<Rightarrow> errno loop_exit" where
  "alloc_private_walk m hdr endp item =
     (if hdr < endp \<and> hdr + 16 < endp then
        if entry_canary m hdr \<noteq> SMEM_PRIVATE_CANARY then Return EINVAL
        else if ucast (entry_item m hdr) = item then Return EEXIST
        else if uncached_entry_next m hdr \<le> hdr then Return EINVAL
        else alloc_private_walk m (uncached_entry_next m hdr) endp item
      else Fallthrough hdr)"
  by pat_completeness auto
termination
  by (relation "measure (\<lambda>(m, hdr, endp, item). unat endp - unat hdr)")
    (auto simp: word_less_nat_alt word_le_nat_alt)

text \<open>
  The five stores into the new entry header: canary, item, size, padding_data (computed
  from the size field just stored) and padding_hdr.
\<close>

definition write_private_entry :: "memory \<Rightarrow> addr \<Rightarrow> 32 word \<Rightarrow> 64 word \<Rightarrow> memory" where
  "write_private_entry m hdr item sz =
     (let m1 = write_le16 m hdr SMEM_PRIVATE_CANARY;
          m2 = write_le16 m1 (hdr + 2) (ucast item);
          m3 = write_le32 m2 (hdr + 4) (ucast (ALIGN sz 8));
          m4 = write_le16 m3 (hdr + 8) (ucast (ucast (entry_size m3 hdr) - sz))
      in write_le16 m4 (hdr + 10) 0)"

text \<open>
  \<open>qcom_smem_alloc_private\<close>: the return value (\<open>Inr ()\<close> for 0) and the shared memory
  after the call.
\<close>

definition qcom_smem_alloc_private ::
  "qcom_smem \<Rightarrow> memory \<Rightarrow> addr \<Rightarrow> 32 word \<Rightarrow> 64 word \<Rightarrow> (errno + unit) \<times> memory" where
  "qcom_smem_alloc_private smem m entry item sz =
     (let phdr = ptable_entry_to_phdr smem m entry;
          p_end = phdr + ucast (ptable_entry_size m entry);
          hdr0 = phdr_to_first_uncached_entry phdr;
          endp = phdr_to_last_uncached_entry m phdr;
          cached = phdr_to_last_cached_entry m phdr
      in if \<not> IN_PARTITION_RANGE endp 0 phdr cached \<or> cached > p_end then (Inl EINVAL, m)
         else case alloc_private_walk m hdr0 endp item of
           Return e \<Rightarrow> (Inl e, m)
         | Fallthrough hdr \<Rightarrow>
             if hdr > endp then (Inl EINVAL, m)
             else
               let alloc_size = 16 + ALIGN sz 8 in
               if hdr + alloc_size > cached then (Inl ENOSPC, m)
               else (Inr (), le32_add_cpu (write_private_entry m hdr item sz) (phdr + 12)
                               (ucast alloc_size)))"

section \<open>Private partitions: lookup\<close>

text \<open>
  The block both lookup loops run on the entry whose item matches: the usable size is the
  stored size minus \<open>padding_data\<close>, when \<open>e_size < partition_size\<close> and
  \<open>padding_data < e_size\<close>; the payload must lie between \<open>lo\<close> and \<open>hi\<close>.
\<close>

definition matched_entry ::
  "memory \<Rightarrow> addr \<Rightarrow> addr \<Rightarrow> 32 word \<Rightarrow> addr \<Rightarrow> addr \<Rightarrow> errno + addr \<times> 64 word" where
  "matched_entry m e item_ptr partition_size lo hi =
     (let e_size = entry_size m e;
          padding_data = (ucast (entry_padding_data m e) :: 32 word)
      in if e_size < partition_size \<and> padding_data < e_size then
           (let entry_sz = (ucast (e_size - padding_data) :: 64 word)
            in if \<not> IN_PARTITION_RANGE item_ptr entry_sz lo hi then Inl EINVAL
               else Inr (item_ptr, entry_sz))
         else Inl EINVAL)"

text \<open>The walk of the uncached list: \<open>while ((e < uncached_end) && ((e + 1) < uncached_end))\<close>.\<close>

function get_private_uncached_walk ::
  "memory \<Rightarrow> addr \<Rightarrow> addr \<Rightarrow> 32 word \<Rightarrow> 32 word \<Rightarrow> (errno + addr \<times> 64 word) loop_exit" where
  "get_private_uncached_walk m e uncached_end item partition_size =
     (if e < uncached_end \<and> e + 16 < uncached_end then
        if entry_canary m e \<noteq> SMEM_PRIVATE_CANARY then Return (Inl EINVAL)
        else if ucast (entry_item m e) = item then
          Return (matched_entry m e (uncached_entry_to_item m e) partition_size e uncached_end)
        else if uncached_entry_next m e \<le> e then Return (Inl EINVAL)
        else get_private_uncached_walk m (uncached_entry_next m e) uncached_end item partition_size
      else Fallthrough e)"
  by pat_completeness auto
termination
  by (relation "measure (\<lambda>(m, e, uncached_end, item, psz). unat uncached_end - unat e)")
    (auto simp: word_less_nat_alt word_le_nat_alt)

text \<open>The walk of the cached list: \<open>while (e > cached_end)\<close>, towards lower addresses.\<close>

function get_private_cached_walk ::
  "memory \<Rightarrow> addr \<Rightarrow> addr \<Rightarrow> 32 word \<Rightarrow> 32 word \<Rightarrow> addr \<Rightarrow> (errno + addr \<times> 64 word) loop_exit" where
  "get_private_cached_walk m e cached_end item partition_size cacheline =
     (if e > cached_end then
        if entry_canary m e \<noteq> SMEM_PRIVATE_CANARY then Return (Inl EINVAL)
        else if ucast (entry_item m e) = item then
          Return (matched_entry m e (cached_entry_to_item m e) partition_size cached_end e)
        else if cached_entry_next m e cacheline \<ge> e then Return (Inl EINVAL)
        else get_private_cached_walk m (cached_entry_next m e cacheline) cached_end item
               partition_size cacheline
      else Fallthrough e)"
  by pat_completeness auto
termination
  by (relation "measure (\<lambda>(m, e, cached_end, item, psz, cl). unat e)")
    (auto simp: word_less_nat_alt word_le_nat_alt)

text \<open>
  The second half of \<open>qcom_smem_get_private\<close>, after the comment "Item was not found in
  the uncached list, search the cached list".
\<close>

definition get_private_cached ::
  "memory \<Rightarrow> addr \<Rightarrow> addr \<Rightarrow> addr \<Rightarrow> addr \<Rightarrow> addr \<Rightarrow> 32 word \<Rightarrow> 32 word \<Rightarrow>
     errno + addr \<times> 64 word" where
  "get_private_cached m phdr uncached_end cached_end p_end cacheline item partition_size =
     (if cached_end = p_end then Inl ENOENT
      else
        let e1 = phdr_to_first_cached_entry m phdr cacheline in
        if \<not> IN_PARTITION_RANGE cached_end 0 uncached_end p_end \<or>
           \<not> IN_PARTITION_RANGE e1 16 cached_end p_end
        then Inl EINVAL
        else case get_private_cached_walk m e1 cached_end item partition_size cacheline of
          Return r \<Rightarrow> r
        | Fallthrough e \<Rightarrow> if e < phdr then Inl EINVAL else Inl ENOENT)"

text \<open>
  \<open>qcom_smem_get_private\<close>: the returned pair is the item pointer and the value stored
  through \<open>size\<close>.
\<close>

definition qcom_smem_get_private ::
  "qcom_smem \<Rightarrow> memory \<Rightarrow> addr \<Rightarrow> 32 word \<Rightarrow> errno + addr \<times> 64 word" where
  "qcom_smem_get_private smem m entry item =
     (let phdr = ptable_entry_to_phdr smem m entry;
          partition_size = ptable_entry_size m entry;
          p_end = phdr + ucast partition_size;
          cacheline = (ucast (ptable_entry_cacheline m entry) :: addr);
          e0 = phdr_to_first_uncached_entry phdr;
          uncached_end = phdr_to_last_uncached_entry m phdr;
          cached_end = phdr_to_last_cached_entry m phdr
      in if \<not> IN_PARTITION_RANGE uncached_end 0 phdr cached_end \<or> cached_end > p_end
         then Inl EINVAL
         else case get_private_uncached_walk m e0 uncached_end item partition_size of
           Return r \<Rightarrow> r
         | Fallthrough e \<Rightarrow>
             if e > uncached_end then Inl EINVAL
             else get_private_cached m phdr uncached_end cached_end p_end cacheline item
                    partition_size)"

section \<open>The entries a walk examines\<close>

text \<open>
  The entries whose header the forward loop reads, in order. The loops of
  \<open>qcom_smem_alloc_private\<close> and \<open>qcom_smem_get_private\<close> have the same condition and
  leave at the same entries, so they examine the same ones.
\<close>

function uncached_visited :: "memory \<Rightarrow> addr \<Rightarrow> addr \<Rightarrow> 32 word \<Rightarrow> addr list" where
  "uncached_visited m e endp item =
     (if e < endp \<and> e + 16 < endp then
        e # (if entry_canary m e \<noteq> SMEM_PRIVATE_CANARY then []
             else if ucast (entry_item m e) = item then []
             else if uncached_entry_next m e \<le> e then []
             else uncached_visited m (uncached_entry_next m e) endp item)
      else [])"
  by pat_completeness auto
termination
  by (relation "measure (\<lambda>(m, e, endp, item). unat endp - unat e)")
    (auto simp: word_less_nat_alt word_le_nat_alt)

text \<open>The entries whose header the backward loop of \<open>qcom_smem_get_private\<close> reads.\<close>

function cached_visited :: "memory \<Rightarrow> addr \<Rightarrow> addr \<Rightarrow> 32 word \<Rightarrow> addr \<Rightarrow> addr list" where
  "cached_visited m e cached_end item cacheline =
     (if e > cached_end then
        e # (if entry_canary m e \<noteq> SMEM_PRIVATE_CANARY then []
             else if ucast (entry_item m e) = item then []
             else if cached_entry_next m e cacheline \<ge> e then []
             else cached_visited m (cached_entry_next m e cacheline) cached_end item cacheline)
      else [])"
  by pat_completeness auto
termination
  by (relation "measure (\<lambda>(m, e, cached_end, item, cl). unat e)")
    (auto simp: word_less_nat_alt word_le_nat_alt)

section \<open>Global heap\<close>

definition qcom_smem_alloc_global ::
  "qcom_smem \<Rightarrow> memory \<Rightarrow> 32 word \<Rightarrow> 64 word \<Rightarrow> (errno + unit) \<times> memory" where
  "qcom_smem_alloc_global smem m item sz =
     (let header = virt_base (regions smem ! 0);
          entry = header_toc header item
      in if read_le32 m entry \<noteq> 0 then (Inl EEXIST, m)
         else
           let sz8 = ALIGN sz 8 in
           if sz8 > ucast (read_le32 m (header_available header)) then (Inl ENOMEM, m)
           else
             let m1 = write_le32 m (entry + 4) (read_le32 m (header_free_offset header));
                 m2 = write_le32 m1 (entry + 8) (ucast sz8);
                 m3 = write_le32 m2 entry 1;
                 m4 = le32_add_cpu m3 (header_free_offset header) (ucast sz8);
                 m5 = le32_add_cpu m4 (header_available header) (- ucast sz8)
             in (Inr (), m5))"

text \<open>The loop of \<open>qcom_smem_get_global\<close> over the regions, in order.\<close>

fun get_global_regions ::
  "memory \<Rightarrow> addr \<Rightarrow> 32 word \<Rightarrow> smem_region list \<Rightarrow> errno + addr \<times> 64 word" where
  "get_global_regions m entry aux [] = Inl ENOENT"
| "get_global_regions m entry aux (area # areas) =
     (if aux_base area = aux \<or> aux = 0 then
        (let e_size = read_le32 m (entry + 8);
             entry_offset = (ucast (read_le32 m (entry + 4)) :: 64 word)
         in if ucast e_size + entry_offset > region_size area then Inl EINVAL
            else Inr (virt_base area + entry_offset, ucast e_size))
      else get_global_regions m entry aux areas)"

definition qcom_smem_get_global ::
  "qcom_smem \<Rightarrow> memory \<Rightarrow> 32 word \<Rightarrow> errno + addr \<times> 64 word" where
  "qcom_smem_get_global smem m item =
     (let header = virt_base (regions smem ! 0);
          entry = header_toc header item
      in if read_le32 m entry = 0 then Inl ENXIO
         else get_global_regions m entry (read_le32 m (entry + 12) AND AUX_BASE_MASK)
                (regions smem))"

section \<open>The hardware lock\<close>

text \<open>
  What a call does to the outside, in order: taking and releasing the hardware spinlock,
  and reading or writing the shared allocator state.
\<close>

datatype event = Hwspin_lock | Hwspin_unlock | Shared_mem_access

text \<open>
  The state the public entry points run in: the handle \<open>__smem\<close> (\<open>None\<close> when it is
  null), the shared memory, the hardware lock and the events so far.
\<close>

record smem_state =
  smem_handle :: "qcom_smem option"
  shmem :: memory
  hwlock_remote :: bool
  hwlock_held :: bool
  trace :: "event list"

text \<open>
  Modelled from the spec: the lock provider is outside the driver file. The spec gives
  \<open>acquire(timeout) -> Result<Guard, LockTimeout>\<close>: acquisition fails when the lock stays
  unavailable for the whole timeout, here when a remote processor holds it.
\<close>

definition hwspin_lock_timeout_irqsave :: "smem_state \<Rightarrow> errno option \<times> smem_state" where
  "hwspin_lock_timeout_irqsave s =
     (if hwlock_remote s then (Some ETIMEDOUT, s)
      else (None, s\<lparr>hwlock_held := True, trace := trace s @ [Hwspin_lock]\<rparr>))"

definition hwspin_unlock_irqrestore :: "smem_state \<Rightarrow> smem_state" where
  "hwspin_unlock_irqrestore s = s\<lparr>hwlock_held := False, trace := trace s @ [Hwspin_unlock]\<rparr>"

definition shared_mem_access :: "memory \<Rightarrow> smem_state \<Rightarrow> smem_state" where
  "shared_mem_access m s = s\<lparr>shmem := m, trace := trace s @ [Shared_mem_access]\<rparr>"

text \<open>Every shared-memory access of a trace lies between a lock and the next unlock.\<close>

fun locked_accesses :: "bool \<Rightarrow> event list \<Rightarrow> bool" where
  "locked_accesses held [] = True"
| "locked_accesses held (Hwspin_lock # es) = locked_accesses True es"
| "locked_accesses held (Hwspin_unlock # es) = locked_accesses False es"
| "locked_accesses held (Shared_mem_access # es) = (held \<and> locked_accesses held es)"

section \<open>Public entry points\<close>

definition qcom_smem_alloc ::
  "smem_state \<Rightarrow> 32 word \<Rightarrow> 32 word \<Rightarrow> 64 word \<Rightarrow> (errno + unit) \<times> smem_state" where
  "qcom_smem_alloc s host item sz =
     (case smem_handle s of
        None \<Rightarrow> (Inl EPROBE_DEFER, s)
      | Some smem \<Rightarrow>
          if item < SMEM_ITEM_LAST_FIXED then (Inl EINVAL, s)
          else if item \<ge> item_count smem then (Inl EINVAL, s)
          else case hwspin_lock_timeout_irqsave s of
            (Some e, s1) \<Rightarrow> (Inl e, s1)
          | (None, s1) \<Rightarrow>
              let (ret, m') =
                (if host < SMEM_HOST_COUNT \<and> ptable_entries smem (unat host) \<noteq> 0 then
                   qcom_smem_alloc_private smem (shmem s1) (ptable_entries smem (unat host)) item sz
                 else if global_partition_entry smem \<noteq> 0 then
                   qcom_smem_alloc_private smem (shmem s1) (global_partition_entry smem) item sz
                 else qcom_smem_alloc_global smem (shmem s1) item sz)
              in (ret, hwspin_unlock_irqrestore (shared_mem_access m' s1)))"

definition qcom_smem_get ::
  "smem_state \<Rightarrow> 32 word \<Rightarrow> 32 word \<Rightarrow> (errno + addr \<times> 64 word) \<times> smem_state" where
  "qcom_smem_get s host item =
     (case smem_handle s of
        None \<Rightarrow> (Inl EPROBE_DEFER, s)
      | Some smem \<Rightarrow>
          if item \<ge> item_count smem then (Inl EINVAL, s)
          else case hwspin_lock_timeout_irqsave s of
            (Some e, s1) \<Rightarrow> (Inl e, s1)
          | (None, s1) \<Rightarrow>
              let ptr =
                (if host < SMEM_HOST_COUNT \<and> ptable_entries smem (unat host) \<noteq> 0 then
                   qcom_smem_get_private smem (shmem s1) (ptable_entries smem (unat host)) item
                 else if global_partition_entry smem \<noteq> 0 then
                   qcom_smem_get_private smem (shmem s1) (global_partition_entry smem) item
                 else qcom_smem_get_global smem (shmem s1) item)
              in (ptr, hwspin_unlock_irqrestore (shared_mem_access (shmem s1) s1)))"

text \<open>The free space of one partition, as both partition branches compute it.\<close>

definition partition_free_space :: "qcom_smem \<Rightarrow> memory \<Rightarrow> addr \<Rightarrow> errno + 32 word" where
  "partition_free_space smem m entry =
     (let phdr = ptable_entry_to_phdr smem m entry;
          ret = phdr_offset_free_cached m phdr - phdr_offset_free_uncached m phdr
      in if ret > ptable_entry_size m entry then Inl EINVAL else Inr ret)"

text \<open>
  \<open>qcom_smem_get_free_space\<close> returns an \<open>int\<close>: \<open>-EPROBE_DEFER\<close> or \<open>-EINVAL\<close>, or
  the \<open>unsigned ret\<close> converted by \<open>return ret\<close>, which is negative from \<open>2^31\<close> on. The
  values of the error constants are those of the kernel's errno headers, which are outside
  the driver file.
\<close>

definition errno_value :: "errno \<Rightarrow> int" where
  "errno_value e =
     (case e of EINVAL \<Rightarrow> 22 | EEXIST \<Rightarrow> 17 | ENOSPC \<Rightarrow> 28 | ENOMEM \<Rightarrow> 12 | ENXIO \<Rightarrow> 6
      | ENOENT \<Rightarrow> 2 | EPROBE_DEFER \<Rightarrow> 517 | ETIMEDOUT \<Rightarrow> 110)"

definition qcom_smem_get_free_space :: "smem_state \<Rightarrow> 32 word \<Rightarrow> int \<times> smem_state" where
  "qcom_smem_get_free_space s host =
     (case smem_handle s of
        None \<Rightarrow> (- errno_value EPROBE_DEFER, s)
      | Some smem \<Rightarrow>
          let ret =
            (if host < SMEM_HOST_COUNT \<and> ptable_entries smem (unat host) \<noteq> 0 then
               partition_free_space smem (shmem s) (ptable_entries smem (unat host))
             else if global_partition_entry smem \<noteq> 0 then
               partition_free_space smem (shmem s) (global_partition_entry smem)
             else
               let header = virt_base (regions smem ! 0);
                   ret = read_le32 (shmem s) (header_available header)
               in if ucast ret > region_size (regions smem ! 0) then Inl EINVAL else Inr ret)
          in ((case ret of Inl e \<Rightarrow> - errno_value e | Inr v \<Rightarrow> sint v),
              shared_mem_access (shmem s) s))"


section \<open>Partition header validation\<close>

text \<open>\<open>qcom_smem_partition_header\<close>: the header's address, or \<open>None\<close> for the null pointer.\<close>

definition qcom_smem_partition_header ::
  "qcom_smem \<Rightarrow> memory \<Rightarrow> addr \<Rightarrow> 16 word \<Rightarrow> 16 word \<Rightarrow> addr option" where
  "qcom_smem_partition_header smem m entry host0 host1 =
     (let header = virt_base (regions smem ! 0) + ucast (ptable_entry_offset m entry) in
      if memcmp_magic m header SMEM_PART_MAGIC then None
      else if host0 \<noteq> phdr_host0 m header then None
      else if host1 \<noteq> phdr_host1 m header then None
      else
        let sz = phdr_size m header in
        if sz \<noteq> ptable_entry_size m entry then None
        else if phdr_offset_free_uncached m header > sz then None
        else Some header)"

section \<open>Partition table reader\<close>

definition qcom_smem_get_ptable :: "qcom_smem \<Rightarrow> memory \<Rightarrow> errno + addr" where
  "qcom_smem_get_ptable smem m =
     (let ptable = virt_base (regions smem ! 0) + region_size (regions smem ! 0) - SZ_4K in
      if memcmp_magic m ptable SMEM_PTABLE_MAGIC then Inl ENOENT
      else if ptable_version m ptable \<noteq> 1 then Inl EINVAL
      else Inr ptable)"

section \<open>Example states\<close>

text \<open>
  A region of 16 KiB mapped at 0x10000. Its partition table sits 4 KiB before its end, at
  0x13000, with one entry (at 0x13020) for the partition of hosts 0 and 5: 64 bytes at
  offset 0x2800, cache line 16. The partition is empty: both lists hold no entry.
\<close>

definition write_magic :: "memory \<Rightarrow> addr \<Rightarrow> 8 word list \<Rightarrow> memory" where
  "write_magic m a bs = m(a := bs ! 0, a + 1 := bs ! 1, a + 2 := bs ! 2, a + 3 := bs ! 3)"

definition ex_smem :: qcom_smem where
  "ex_smem = \<lparr>global_partition_entry = 0, ptable_entries = (\<lambda>_. 0)(5 := 0x13020),
     item_count = 512,
     regions = [\<lparr>aux_base = 0, virt_base = 0x10000, region_size = 0x4000\<rparr>]\<rparr>"

definition ex_mem :: memory where
  "ex_mem =
     write_le32 (write_le32 (write_le32 (write_le16 (write_le16 (write_magic
     (write_le32 (write_le16 (write_le16 (write_le32 (write_le32
     (write_le32 (write_le32 (write_magic (\<lambda>_. 0)
       0x13000 SMEM_PTABLE_MAGIC) 0x13004 1) 0x13008 1)
       0x13020 0x2800) 0x13024 64) 0x1302c 0) 0x1302e 5) 0x13030 16)
       0x12800 SMEM_PART_MAGIC) 0x12804 0) 0x12806 5) 0x12808 64) 0x1280c 32) 0x12810 64"

text \<open>
  A memory with one more entry header stored at \<open>hdr\<close> (item, size, padding_data; no
  padding_hdr) and the uncached free offset of the example partition set to \<open>uf\<close>.
\<close>

definition ex_store ::
  "memory \<Rightarrow> addr \<Rightarrow> 16 word \<Rightarrow> 32 word \<Rightarrow> 16 word \<Rightarrow> 32 word \<Rightarrow> memory" where
  "ex_store m hdr item sz pad uf =
     write_le32 (write_le16 (write_le16 (write_le32 (write_le16 (write_le16 m
       hdr SMEM_PRIVATE_CANARY) (hdr + 2) item) (hdr + 4) sz) (hdr + 8) pad) (hdr + 10) 0)
       0x1280c uf"

text \<open>The example partition after a boot loader stored item 3 (8 bytes) in the uncached list.\<close>

definition ex_mem_item3 :: memory where "ex_mem_item3 = ex_store ex_mem 0x12820 3 8 0 56"

text \<open>
  The example partition after item 8 was allocated with size 0, and with size 5; and the
  first of the two after item 9 was then allocated with size 8.
\<close>

definition ex_mem_zero :: memory where "ex_mem_zero = ex_store ex_mem 0x12820 8 0 0 48"
definition ex_mem_five :: memory where "ex_mem_five = ex_store ex_mem 0x12820 8 8 3 56"
definition ex_mem_crossed :: memory where "ex_mem_crossed = ex_store ex_mem_zero 0x12820 9 8 0 72"

text \<open>
  A partition of 96 bytes at the same place whose cached list holds item 8 (8 bytes): the
  entry header is at 0x12850, its payload before it at 0x12848, the cached free offset 72.
\<close>

definition ex_mem_cached :: memory where
  "ex_mem_cached =
     write_le16 (write_le16 (write_le32 (write_le16 (write_le16
     (write_le32 (write_le32 (write_le32 ex_mem
       0x13024 96) 0x12808 96) 0x12810 72)
       0x12850 SMEM_PRIVATE_CANARY) 0x12852 8) 0x12854 8) 0x12858 0) 0x1285a 0"

text \<open>
  The example partition with a header that \<open>qcom_smem_partition_header\<close> rejects: the magic
  is zeroed, \<open>host1\<close> is 7 instead of 5 and the size field is 0 instead of 64. The two free
  offsets are untouched.
\<close>

definition ex_mem_bad_header :: memory where
  "ex_mem_bad_header =
     write_le32 (write_le16 (write_magic ex_mem 0x12800 [0, 0, 0, 0]) 0x12806 7) 0x12808 0"

text \<open>The example partition with its uncached free offset (80) beyond the cached one (64).\<close>

definition ex_mem_bad_offsets :: memory where
  "ex_mem_bad_offsets = write_le32 ex_mem 0x1280c 80"

text \<open>
  The two partitions holding one item, with one bit of the entry's canary flipped: the
  uncached entry of \<open>ex_mem_item3\<close> and the cached entry of \<open>ex_mem_cached\<close>.
\<close>

definition ex_mem_bad_canary :: memory where
  "ex_mem_bad_canary = write_le16 ex_mem_item3 0x12820 0xa5a4"

definition ex_mem_cached_bad_canary :: memory where
  "ex_mem_cached_bad_canary = write_le16 ex_mem_cached 0x12850 0xa5a4"

definition ex_state :: "memory \<Rightarrow> smem_state" where
  "ex_state m = \<lparr>smem_handle = Some ex_smem, shmem = m, hwlock_remote = False,
     hwlock_held = False, trace = []\<rparr>"


text \<open>
  The partition after item 8 was allocated with size 0 (its 16-byte entry ends at the free
  offset 48), with one bit of that entry's canary flipped.
\<close>

definition ex_mem_zero_bad_canary :: memory where
  "ex_mem_zero_bad_canary = write_le16 ex_mem_zero 0x12820 0xa5a4"







declare alloc_private_walk.simps [simp del] get_private_uncached_walk.simps [simp del]
  get_private_cached_walk.simps [simp del] uncached_visited.simps [simp del]
  cached_visited.simps [simp del]

section \<open>Shared memory: reading what was written\<close>

lemma unat_plus_small:
  "unat (a :: addr) + k < 2 ^ 64 \<Longrightarrow> unat (a + of_nat k) = unat a + k"
  by (simp add: unat_word_ariths unat_of_nat)

lemma write_le16_frame: "x \<noteq> a \<Longrightarrow> x \<noteq> a + 1 \<Longrightarrow> write_le16 m a v x = m x"
  by (simp add: write_le16_def)

lemma write_le32_frame:
  "x \<noteq> a \<Longrightarrow> x \<noteq> a + 1 \<Longrightarrow> x \<noteq> a + 2 \<Longrightarrow> x \<noteq> a + 3 \<Longrightarrow> write_le32 m a v x = m x"
  by (simp add: write_le32_def)

lemma read_le16_frame:
  "m' a = m a \<Longrightarrow> m' (a + 1) = m (a + 1) \<Longrightarrow> read_le16 m' a = read_le16 m a"
  by (simp add: read_le16_def)

lemma read_le32_frame:
  "m' a = m a \<Longrightarrow> m' (a + 1) = m (a + 1) \<Longrightarrow> m' (a + 2) = m (a + 2) \<Longrightarrow>
   m' (a + 3) = m (a + 3) \<Longrightarrow> read_le32 m' a = read_le32 m a"
  by (simp add: read_le32_def)

lemma read_write_le16_same: "read_le16 (write_le16 m a v) a = v"
  unfolding read_le16_def write_le16_def
  by (simp, rule bit_word_eqI) (auto simp add: bit_simps)

lemma read_write_le32_same: "read_le32 (write_le32 m a v) a = v"
  unfolding read_le32_def write_le32_def
  apply simp
  apply (rule bit_word_eqI)
  subgoal for n
    apply (cases "n < 8"; cases "n < 16"; cases "n < 24")
    apply (simp_all add: bit_simps)
    apply (cases "bit v n"; simp; arith)+
    done
  done

lemma read_le32_add_cpu: "read_le32 (le32_add_cpu m a v) a = read_le32 m a + v"
  by (simp add: le32_add_cpu_def read_write_le32_same)

lemma outside_2:
  assumes "unat (a :: addr) + 2 \<le> 2 ^ 64" "unat x < unat a \<or> unat a + 2 \<le> unat x"
  shows "x \<noteq> a \<and> x \<noteq> a + 1"
proof -
  have "unat (a + 1) = unat a + 1" using unat_plus_small [of a 1] assms(1) by simp
  with assms(2) show ?thesis by auto
qed

lemma outside_4:
  assumes "unat (a :: addr) + 4 \<le> 2 ^ 64" "unat x < unat a \<or> unat a + 4 \<le> unat x"
  shows "x \<noteq> a \<and> x \<noteq> a + 1 \<and> x \<noteq> a + 2 \<and> x \<noteq> a + 3"
proof -
  have "unat (a + 1) = unat a + 1" "unat (a + 2) = unat a + 2" "unat (a + 3) = unat a + 3"
    using unat_plus_small [of a 1] unat_plus_small [of a 2] unat_plus_small [of a 3] assms(1)
    by simp_all
  with assms(2) show ?thesis by auto
qed

lemma inside_4:
  assumes "unat (a :: addr) + 4 \<le> 2 ^ 64"
  shows "unat (a + 1) = unat a + 1 \<and> unat (a + 2) = unat a + 2 \<and> unat (a + 3) = unat a + 3"
  using unat_plus_small [of a 1] unat_plus_small [of a 2] unat_plus_small [of a 3] assms
  by simp

section \<open>Address arithmetic without wrap-around\<close>

lemma unat_32_bound: "unat (x :: 32 word) < 2 ^ 32"
  using unsigned_less [of x, where 'a = nat] by simp


lemma unat_64_bound: "unat (x :: addr) < 2 ^ 64"
  using unsigned_less [of x, where 'a = nat] by simp

lemma unat_ucast_32_64: "unat (ucast (x :: 32 word) :: addr) = unat x"
proof -
  have "unat x < 2 ^ 64" using unat_32_bound [of x] by simp
  then show ?thesis by (simp add: unsigned_ucast_eq take_bit_nat_eq_self)
qed


lemma ptr_add_no_wrap:
  "(p :: addr) \<le> p + k \<Longrightarrow> unat (p + k) = unat p + unat k"
  by (simp add: unat_plus_simple)

lemma ptr_add_wrap_iff:
  "(p :: addr) \<le> p + k \<longleftrightarrow> unat p + unat k < 2 ^ 64"
  using no_plus_overflow_unat_size [of p k] by (simp add: word_size)


lemma and_not_7: "(x :: addr) AND NOT 7 = push_bit 3 (drop_bit 3 x)"
proof (rule bit_word_eqI)
  fix n assume "n < LENGTH(64)"
  have seven: "(7 :: addr) = mask 3" by (simp add: mask_eq_exp_minus_1)
  show "bit (x AND NOT 7) n \<longleftrightarrow> bit (push_bit 3 (drop_bit 3 x)) n"
    unfolding seven by (auto simp: bit_simps)
qed

lemma unat_and_not_7: "unat ((x :: addr) AND NOT 7) = unat x div 8 * 8"
proof -
  have d: "unat (x div 8) = unat x div 8"
    by (simp add: unat_div_distrib)
  have "unat x div 8 * 8 < 2 ^ 64"
    using unat_64_bound [of x] by simp
  then have "unat (x div 8 * 8) = unat x div 8 * 8"
    using d by (simp add: unat_word_ariths)
  moreover have "push_bit 3 (drop_bit 3 x) = x div 8 * 8"
    by (simp add: push_bit_eq_mult drop_bit_eq_div)
  ultimately show ?thesis by (simp only: and_not_7)
qed

lemma unat_ALIGN_8:
  assumes "unat sz + 7 < 2 ^ 64"
  shows "unat (ALIGN sz 8) = (unat sz + 7) div 8 * 8"
proof -
  have "unat (sz + 7) = unat sz + 7"
    using assms by (simp add: unat_word_ariths)
  moreover have "ALIGN sz 8 = (sz + 7) AND NOT 7"
    by (simp add: ALIGN_def)
  ultimately show ?thesis by (simp only: unat_and_not_7)
qed

lemma partition_geometry:
  fixes phdr :: addr and uf cf psz :: "32 word"
  assumes "IN_PARTITION_RANGE (phdr + ucast uf) 0 phdr (phdr + ucast cf)"
    and "\<not> phdr + ucast cf > phdr + ucast psz"
  shows "unat (phdr + ucast uf) = unat phdr + unat uf"
    "unat (phdr + ucast cf) = unat phdr + unat cf"
    "unat (phdr + ucast psz) = unat phdr + unat psz"
    "unat uf \<le> unat cf" "unat cf \<le> unat psz"
proof -
  from assms have a: "phdr \<le> phdr + ucast uf" "phdr + ucast uf \<le> phdr + ucast cf"
    "phdr + ucast cf \<le> phdr + ucast psz"
    by (simp_all add: IN_PARTITION_RANGE_def not_less)
  then have b: "phdr \<le> phdr + ucast cf" "phdr \<le> phdr + ucast psz" by auto
  show 1: "unat (phdr + ucast uf) = unat phdr + unat uf"
    using ptr_add_no_wrap [OF a(1)] by (simp add: unat_ucast_32_64)
  show 2: "unat (phdr + ucast cf) = unat phdr + unat cf"
    using ptr_add_no_wrap [OF b(1)] by (simp add: unat_ucast_32_64)
  show 3: "unat (phdr + ucast psz) = unat phdr + unat psz"
    using ptr_add_no_wrap [OF b(2)] by (simp add: unat_ucast_32_64)
  show "unat uf \<le> unat cf" using a(2) 1 2 by (simp add: word_le_nat_alt)
  show "unat cf \<le> unat psz" using a(3) 2 3 by (simp add: word_le_nat_alt)
qed


lemma unat_ucast_mod: "unat (ucast (x :: 'a::len word) :: 'b::len word) = unat x mod 2 ^ LENGTH('b)"
  by (simp add: unsigned_ucast_eq take_bit_eq_mod)

lemma unat_add_nowrap:
  "unat (a :: addr) + unat b < 2 ^ 64 \<Longrightarrow> unat (a + b) = unat a + unat b"
  by (simp add: unat_word_ariths)

lemma unat_add_num:
  "unat (a :: addr) + k < 2 ^ 64 \<Longrightarrow> unat (a + of_nat k) = unat a + k"
  by (simp add: unat_word_ariths unat_of_nat)

section \<open>Frames of the stores\<close>

lemma r16w16_other:
  "b \<noteq> a \<Longrightarrow> b \<noteq> a + 1 \<Longrightarrow> b + 1 \<noteq> a \<Longrightarrow> b + 1 \<noteq> a + 1 \<Longrightarrow>
     read_le16 (write_le16 m a v) b = read_le16 m b"
  by (rule read_le16_frame; rule write_le16_frame) 

lemma r16w32_other:
  "b \<noteq> a \<Longrightarrow> b \<noteq> a + 1 \<Longrightarrow> b \<noteq> a + 2 \<Longrightarrow> b \<noteq> a + 3 \<Longrightarrow>
   b + 1 \<noteq> a \<Longrightarrow> b + 1 \<noteq> a + 1 \<Longrightarrow> b + 1 \<noteq> a + 2 \<Longrightarrow> b + 1 \<noteq> a + 3 \<Longrightarrow>
     read_le16 (write_le32 m a v) b = read_le16 m b"
  by (rule read_le16_frame; rule write_le32_frame)

lemma r32w16_other:
  "b \<noteq> a \<Longrightarrow> b \<noteq> a + 1 \<Longrightarrow> b + 1 \<noteq> a \<Longrightarrow> b + 1 \<noteq> a + 1 \<Longrightarrow>
   b + 2 \<noteq> a \<Longrightarrow> b + 2 \<noteq> a + 1 \<Longrightarrow> b + 3 \<noteq> a \<Longrightarrow> b + 3 \<noteq> a + 1 \<Longrightarrow>
     read_le32 (write_le16 m a v) b = read_le32 m b"
  by (rule read_le32_frame; rule write_le16_frame)

lemma wpe_fields:
  "entry_canary (write_private_entry m hdr item sz) hdr = SMEM_PRIVATE_CANARY"
  "entry_item (write_private_entry m hdr item sz) hdr = ucast item"
  "entry_size (write_private_entry m hdr item sz) hdr = ucast (ALIGN sz 8)"
  "entry_padding_data (write_private_entry m hdr item sz) hdr =
     ucast (ucast (ucast (ALIGN sz 8) :: 32 word) - sz)"
  "entry_padding_hdr (write_private_entry m hdr item sz) hdr = 0"
  by (simp_all add: write_private_entry_def Let_def entry_canary_def entry_item_def
      entry_size_def entry_padding_data_def entry_padding_hdr_def
      r16w16_other r16w32_other r32w16_other read_write_le16_same read_write_le32_same)

lemma wpe_outside:
  assumes "unat hdr + 12 \<le> 2 ^ 64" "unat x < unat hdr \<or> unat hdr + 12 \<le> unat x"
  shows "write_private_entry m hdr item sz x = m x"
proof -
  have u: "unat (hdr + of_nat k) = unat hdr + k" if "k < 12" for k
    using that assms(1) by (intro unat_add_num) simp
  have ne: "x \<noteq> hdr + of_nat k" if "k < 12" for k
    using u [OF that] assms(2) that by auto
  have "x \<noteq> hdr" "x \<noteq> hdr + 1" "x \<noteq> hdr + 2" "x \<noteq> hdr + 3" "x \<noteq> hdr + 4" "x \<noteq> hdr + 5"
    "x \<noteq> hdr + 6" "x \<noteq> hdr + 7" "x \<noteq> hdr + 8" "x \<noteq> hdr + 9" "x \<noteq> hdr + 10" "x \<noteq> hdr + 11"
    using ne [of 0] ne [of 1] ne [of 2] ne [of 3] ne [of 4] ne [of 5] ne [of 6] ne [of 7]
      ne [of 8] ne [of 9] ne [of 10] ne [of 11] by simp_all
  then show ?thesis
    by (simp add: write_private_entry_def Let_def write_le16_def write_le32_def add.assoc)
qed

lemma write_le32_outside:
  assumes "unat a + 4 \<le> 2 ^ 64" "unat x < unat a \<or> unat a + 4 \<le> unat x"
  shows "write_le32 m a v x = m x"
  using outside_4 [OF assms] by (simp add: write_le32_frame)

lemma le32_add_cpu_outside:
  assumes "unat a + 4 \<le> 2 ^ 64" "unat x < unat a \<or> unat a + 4 \<le> unat x"
  shows "le32_add_cpu m a v x = m x"
  by (simp add: le32_add_cpu_def write_le32_outside [OF assms])

lemma read_le32_agree:
  assumes "\<forall>x. unat a \<le> unat x \<and> unat x < unat a + 4 \<longrightarrow> m' x = m x"
    and "unat a + 4 \<le> 2 ^ 64"
  shows "read_le32 m' a = read_le32 m a"
proof -
  from inside_4 [OF assms(2)] assms(1)
  have "m' a = m a" "m' (a + 1) = m (a + 1)" "m' (a + 2) = m (a + 2)" "m' (a + 3) = m (a + 3)"
    by simp_all
  then show ?thesis by (rule read_le32_frame)
qed

section \<open>The forward walk\<close>

lemma entry_fields_agree:
  assumes "\<forall>x. unat e \<le> unat x \<and> unat x < unat e + 12 \<longrightarrow> m' x = m x"
    and "unat e + 12 \<le> 2 ^ 64"
  shows "entry_canary m' e = entry_canary m e" "entry_item m' e = entry_item m e"
    "entry_size m' e = entry_size m e" "entry_padding_data m' e = entry_padding_data m e"
    "entry_padding_hdr m' e = entry_padding_hdr m e"
proof -
  have u: "unat (e + of_nat k) = unat e + k" if "k < 12" for k
    using that assms(2) by (intro unat_plus_small) simp
  have b: "m' (e + of_nat k) = m (e + of_nat k)" if "k < 12" for k
    using assms(1) u [OF that] that by simp
  have bs: "m' e = m e" "m' (e + 1) = m (e + 1)" "m' (e + 2) = m (e + 2)"
    "m' (e + 3) = m (e + 3)" "m' (e + 4) = m (e + 4)" "m' (e + 5) = m (e + 5)"
    "m' (e + 6) = m (e + 6)" "m' (e + 7) = m (e + 7)" "m' (e + 8) = m (e + 8)"
    "m' (e + 9) = m (e + 9)" "m' (e + 10) = m (e + 10)" "m' (e + 11) = m (e + 11)"
    using b [of 0] b [of 1] b [of 2] b [of 3] b [of 4] b [of 5] b [of 6] b [of 7]
      b [of 8] b [of 9] b [of 10] b [of 11] by simp_all
  show "entry_canary m' e = entry_canary m e" "entry_item m' e = entry_item m e"
    "entry_size m' e = entry_size m e" "entry_padding_data m' e = entry_padding_data m e"
    "entry_padding_hdr m' e = entry_padding_hdr m e"
    using bs
    by (simp_all add: entry_canary_def entry_item_def entry_size_def entry_padding_data_def
        entry_padding_hdr_def read_le16_def read_le32_def add.assoc)
qed


lemma alloc_walk_simps:
  "\<not> (hdr < endp \<and> hdr + 16 < endp) \<Longrightarrow> alloc_private_walk m hdr endp item = Fallthrough hdr"
  "hdr < endp \<Longrightarrow> hdr + 16 < endp \<Longrightarrow> entry_canary m hdr \<noteq> SMEM_PRIVATE_CANARY \<Longrightarrow>
     alloc_private_walk m hdr endp item = Return EINVAL"
  "hdr < endp \<Longrightarrow> hdr + 16 < endp \<Longrightarrow> entry_canary m hdr = SMEM_PRIVATE_CANARY \<Longrightarrow>
     ucast (entry_item m hdr) = item \<Longrightarrow> alloc_private_walk m hdr endp item = Return EEXIST"
  "hdr < endp \<Longrightarrow> hdr + 16 < endp \<Longrightarrow> entry_canary m hdr = SMEM_PRIVATE_CANARY \<Longrightarrow>
     ucast (entry_item m hdr) \<noteq> item \<Longrightarrow> uncached_entry_next m hdr \<le> hdr \<Longrightarrow>
     alloc_private_walk m hdr endp item = Return EINVAL"
  "hdr < endp \<Longrightarrow> hdr + 16 < endp \<Longrightarrow> entry_canary m hdr = SMEM_PRIVATE_CANARY \<Longrightarrow>
     ucast (entry_item m hdr) \<noteq> item \<Longrightarrow> \<not> uncached_entry_next m hdr \<le> hdr \<Longrightarrow>
     alloc_private_walk m hdr endp item =
       alloc_private_walk m (uncached_entry_next m hdr) endp item"
  by (subst alloc_private_walk.simps, auto)+

lemma get_uncached_walk_simps:
  "\<not> (e < endp \<and> e + 16 < endp) \<Longrightarrow>
     get_private_uncached_walk m e endp item psz = Fallthrough e"
  "e < endp \<Longrightarrow> e + 16 < endp \<Longrightarrow> entry_canary m e \<noteq> SMEM_PRIVATE_CANARY \<Longrightarrow>
     get_private_uncached_walk m e endp item psz = Return (Inl EINVAL)"
  "e < endp \<Longrightarrow> e + 16 < endp \<Longrightarrow> entry_canary m e = SMEM_PRIVATE_CANARY \<Longrightarrow>
     ucast (entry_item m e) = item \<Longrightarrow>
     get_private_uncached_walk m e endp item psz =
       Return (matched_entry m e (uncached_entry_to_item m e) psz e endp)"
  "e < endp \<Longrightarrow> e + 16 < endp \<Longrightarrow> entry_canary m e = SMEM_PRIVATE_CANARY \<Longrightarrow>
     ucast (entry_item m e) \<noteq> item \<Longrightarrow> uncached_entry_next m e \<le> e \<Longrightarrow>
     get_private_uncached_walk m e endp item psz = Return (Inl EINVAL)"
  "e < endp \<Longrightarrow> e + 16 < endp \<Longrightarrow> entry_canary m e = SMEM_PRIVATE_CANARY \<Longrightarrow>
     ucast (entry_item m e) \<noteq> item \<Longrightarrow> \<not> uncached_entry_next m e \<le> e \<Longrightarrow>
     get_private_uncached_walk m e endp item psz =
       get_private_uncached_walk m (uncached_entry_next m e) endp item psz"
  by (subst get_private_uncached_walk.simps, auto)+

lemma alloc_walk_mono:
  "alloc_private_walk m e endp item = Fallthrough h \<Longrightarrow> e \<le> h"
proof (induction m e endp item rule: alloc_private_walk.induct)
  case (1 m hdr endp item)
  show ?case
  proof (cases "hdr < endp \<and> hdr + 16 < endp")
    case False
    with "1.prems" show ?thesis by (simp add: alloc_walk_simps)
  next
    case True
    with "1.prems" have c: "entry_canary m hdr = SMEM_PRIVATE_CANARY"
      "ucast (entry_item m hdr) \<noteq> item" "\<not> uncached_entry_next m hdr \<le> hdr"
      by (subst (asm) alloc_private_walk.simps, simp split: if_splits)+
    with True "1.prems" have "alloc_private_walk m (uncached_entry_next m hdr) endp item = Fallthrough h"
      by (simp add: alloc_walk_simps)
    with "1.IH" True c have "uncached_entry_next m hdr \<le> h" by simp
    with c(3) show ?thesis by simp
  qed
qed








section \<open>A successful allocation in a private partition\<close>

lemma qcom_smem_alloc_private_eq:
  assumes "phdr = ptable_entry_to_phdr smem m entry" "psz = ptable_entry_size m entry"
    "uf = phdr_offset_free_uncached m phdr" "cf = phdr_offset_free_cached m phdr"
  shows "qcom_smem_alloc_private smem m entry item sz =
     (if \<not> IN_PARTITION_RANGE (phdr + ucast uf) 0 phdr (phdr + ucast cf) \<or>
         phdr + ucast cf > phdr + ucast psz then (Inl EINVAL, m)
      else case alloc_private_walk m (phdr + 32) (phdr + ucast uf) item of
        Return e \<Rightarrow> (Inl e, m)
      | Fallthrough hdr \<Rightarrow>
          if hdr > phdr + ucast uf then (Inl EINVAL, m)
          else if hdr + (16 + ALIGN sz 8) > phdr + ucast cf then (Inl ENOSPC, m)
          else (Inr (), le32_add_cpu (write_private_entry m hdr item sz) (phdr + 12)
                          (ucast (16 + ALIGN sz 8))))"
  unfolding assms
  by (simp add: qcom_smem_alloc_private_def Let_def phdr_to_first_uncached_entry_def
      phdr_to_last_uncached_entry_def phdr_to_last_cached_entry_def split: loop_exit.split)


lemma round8_bounds: "(n :: nat) \<le> (n + 7) div 8 * 8" "(n + 7) div 8 * 8 < n + 8"
  "0 < n \<Longrightarrow> 8 \<le> (n + 7) div 8 * 8"
  by presburger+

lemma alloc_private_effect:
  fixes smem m entry item sz
  assumes phdr: "phdr = ptable_entry_to_phdr smem m entry"
    and psz: "psz = ptable_entry_size m entry"
    and uf: "uf = phdr_offset_free_uncached m phdr"
    and cf: "cf = phdr_offset_free_cached m phdr"
    and endp: "endp = phdr + ucast uf"
    and r: "r = (unat sz + 7) div 8 * 8"
    and walk: "alloc_private_walk m (phdr + 32) endp item = Fallthrough endp"
    and ok: "fst (qcom_smem_alloc_private smem m entry item sz) = Inr ()"
    and nowrap: "unat phdr + unat psz + unat sz + 24 \<le> 2 ^ 64"
    and m': "m' = snd (qcom_smem_alloc_private smem m entry item sz)"
  shows "unat endp = unat phdr + unat uf" and "32 \<le> unat uf"
    and "unat uf + 16 + r \<le> unat cf" and "unat cf \<le> unat psz"
    and "unat (ALIGN sz 8) = r"
    and "\<forall>x. \<not> (unat phdr + 12 \<le> unat x \<and> unat x < unat phdr + 16) \<and>
            \<not> (unat endp \<le> unat x \<and> unat x < unat endp + 12) \<longrightarrow> m' x = m x"
    and "entry_canary m' endp = SMEM_PRIVATE_CANARY"
    and "entry_item m' endp = ucast item"
    and "entry_size m' endp = ucast (ALIGN sz 8)"
    and "entry_padding_data m' endp = ucast (ucast (ucast (ALIGN sz 8) :: 32 word) - sz)"
    and "entry_padding_hdr m' endp = 0"
    and "phdr_offset_free_uncached m' phdr = uf + ucast (16 + ALIGN sz 8)"
    and "unat (phdr_offset_free_uncached m' phdr) = unat uf + 16 + r"
    and "phdr_offset_free_cached m' phdr = cf"
proof -
  let ?a = "16 + ALIGN sz 8 :: addr"
  let ?w = "write_private_entry m endp item sz"
  note eq = qcom_smem_alloc_private_eq [OF phdr psz uf cf, of item sz]
  from ok have rng: "IN_PARTITION_RANGE (phdr + ucast uf) 0 phdr (phdr + ucast cf)"
    "\<not> phdr + ucast cf > phdr + ucast psz"
    unfolding eq by (auto split: if_splits)
  note g = partition_geometry [OF rng]
  from ok walk rng have sp: "\<not> endp + ?a > phdr + ucast cf"
    unfolding eq endp by (auto split: if_splits)
  from ok walk rng sp have m'eq: "m' = le32_add_cpu ?w (phdr + 12) (ucast ?a)"
    unfolding m' eq endp by (auto split: if_splits)
  show e: "unat endp = unat phdr + unat uf" using g(1) endp by simp
  show c: "unat cf \<le> unat psz" by (rule g(5))
  have "unat sz + 7 < 2 ^ 64" using nowrap by simp
  then show A: "unat (ALIGN sz 8) = r" unfolding r by (rule unat_ALIGN_8)
  note rb = round8_bounds [of "unat sz", folded r]
  have a: "unat ?a = 16 + r"
    using A rb nowrap by (simp add: unat_word_ariths)
  have "unat endp + unat ?a < 2 ^ 64"
    using e a rb g nowrap by simp
  then have "unat (endp + ?a) = unat endp + unat ?a" by (rule unat_add_nowrap)
  with sp g(2) e a show s: "unat uf + 16 + r \<le> unat cf"
    by (simp add: word_less_nat_alt)
  have p: "unat (phdr + of_nat k) = unat phdr + k" if "k \<le> 32" for k
    using that s c nowrap by (intro unat_add_num) simp
  have "phdr + 32 \<le> endp" using alloc_walk_mono [OF walk] .
  with p [of 32] e show u: "32 \<le> unat uf" by (simp add: word_le_nat_alt)
  have e12: "unat endp + 12 \<le> 2 ^ 64" using e s c nowrap by simp
  have p12: "unat (phdr + 12) = unat phdr + 12" "unat (phdr + 16) = unat phdr + 16"
    "unat phdr + 32 < 2 ^ 64"
    using p [of 12] p [of 16] p [of 32] unat_64_bound [of "phdr + 32"] by simp_all
  show fr: "\<forall>x. \<not> (unat phdr + 12 \<le> unat x \<and> unat x < unat phdr + 16) \<and>
            \<not> (unat endp \<le> unat x \<and> unat x < unat endp + 12) \<longrightarrow> m' x = m x"
  proof (intro allI impI)
    fix x :: addr
    assume x: "\<not> (unat phdr + 12 \<le> unat x \<and> unat x < unat phdr + 16) \<and>
            \<not> (unat endp \<le> unat x \<and> unat x < unat endp + 12)"
    have "m' x = ?w x" unfolding m'eq
      using x p12 by (intro le32_add_cpu_outside) auto
    also have "\<dots> = m x"
      using x e12 by (intro wpe_outside) auto
    finally show "m' x = m x" .
  qed
  have ag: "\<forall>x. unat endp \<le> unat x \<and> unat x < unat endp + 12 \<longrightarrow> m' x = ?w x"
    unfolding m'eq using p12 e u by (auto intro!: le32_add_cpu_outside)
  note fe = entry_fields_agree [OF ag e12]
  show "entry_canary m' endp = SMEM_PRIVATE_CANARY"
    and "entry_item m' endp = ucast item"
    and "entry_size m' endp = ucast (ALIGN sz 8)"
    and "entry_padding_data m' endp = ucast (ucast (ucast (ALIGN sz 8) :: 32 word) - sz)"
    and "entry_padding_hdr m' endp = 0"
    by (simp_all add: fe wpe_fields)
  have "read_le32 ?w (phdr + 12) = read_le32 m (phdr + 12)"
    using p12 e u e12 by (intro read_le32_agree) (auto intro!: wpe_outside)
  then show o: "phdr_offset_free_uncached m' phdr = uf + ucast ?a"
    unfolding m'eq by (simp add: phdr_offset_free_uncached_def read_le32_add_cpu uf)
  have "unat (ucast ?a :: 32 word) = 16 + r"
    using a s unat_32_bound [of cf] by (simp add: unat_ucast_mod)
  then show "unat (phdr_offset_free_uncached m' phdr) = unat uf + 16 + r"
    unfolding o using s unat_32_bound [of cf] by (simp add: unat_word_ariths)
  have "read_le32 m' (phdr + 16) = read_le32 m (phdr + 16)"
    using fr p12 e u by (intro read_le32_agree) auto
  then show "phdr_offset_free_cached m' phdr = cf"
    by (simp add: phdr_offset_free_cached_def cf)
qed


section \<open>Routing of the entry points\<close>








section \<open>Failed allocations\<close>

lemma qcom_smem_alloc_private_fail:
  "qcom_smem_alloc_private smem m entry item sz = (Inl e, m') \<Longrightarrow> m' = m"
  by (auto simp: qcom_smem_alloc_private_def Let_def split: if_splits loop_exit.splits)







section \<open>The global heap\<close>









section \<open>The example states, evaluated\<close>

lemma write_le16_outside:
  assumes "unat a + 2 \<le> 2 ^ 64" "unat x < unat a \<or> unat a + 2 \<le> unat x"
  shows "write_le16 m a v x = m x"
  using outside_2 [OF assms] by (simp add: write_le16_frame)

lemma write_magic_outside:
  assumes "unat a + 4 \<le> 2 ^ 64" "unat x < unat a \<or> unat a + 4 \<le> unat x"
  shows "write_magic m a v x = m x"
  using outside_4 [OF assms] by (simp add: write_magic_def)

lemma read_le16_agree:
  assumes "\<forall>x. unat a \<le> unat x \<and> unat x < unat a + 2 \<longrightarrow> m' x = m x"
    and "unat a + 2 \<le> 2 ^ 64"
  shows "read_le16 m' a = read_le16 m a"
proof -
  have "unat (a + 1) = unat a + 1" using unat_add_num [of a 1] assms(2) by simp
  with assms(1) have "m' a = m a" "m' (a + 1) = m (a + 1)" by simp_all
  then show ?thesis by (rule read_le16_frame)
qed

lemma read_magic_agree:
  assumes "\<forall>x. unat a \<le> unat x \<and> unat x < unat a + 4 \<longrightarrow> m' x = m x"
    and "unat a + 4 \<le> 2 ^ 64"
  shows "read_magic m' a = read_magic m a"
  using inside_4 [OF assms(2)] assms(1) by (simp add: read_magic_def)

lemma read_over_write:
  fixes a b :: addr
  shows
  "unat a + 2 \<le> 2 ^ 64 \<Longrightarrow> unat b + 2 \<le> 2 ^ 64 \<Longrightarrow> unat a + 2 \<le> unat b \<or> unat b + 2 \<le> unat a \<Longrightarrow>
     read_le16 (write_le16 m a v) b = read_le16 m b"
  "unat a + 4 \<le> 2 ^ 64 \<Longrightarrow> unat b + 2 \<le> 2 ^ 64 \<Longrightarrow> unat a + 4 \<le> unat b \<or> unat b + 2 \<le> unat a \<Longrightarrow>
     read_le16 (write_le32 m a w) b = read_le16 m b"
  "unat a + 4 \<le> 2 ^ 64 \<Longrightarrow> unat b + 2 \<le> 2 ^ 64 \<Longrightarrow> unat a + 4 \<le> unat b \<or> unat b + 2 \<le> unat a \<Longrightarrow>
     read_le16 (write_magic m a bs) b = read_le16 m b"
  "unat a + 2 \<le> 2 ^ 64 \<Longrightarrow> unat b + 4 \<le> 2 ^ 64 \<Longrightarrow> unat a + 2 \<le> unat b \<or> unat b + 4 \<le> unat a \<Longrightarrow>
     read_le32 (write_le16 m a v) b = read_le32 m b"
  "unat a + 4 \<le> 2 ^ 64 \<Longrightarrow> unat b + 4 \<le> 2 ^ 64 \<Longrightarrow> unat a + 4 \<le> unat b \<or> unat b + 4 \<le> unat a \<Longrightarrow>
     read_le32 (write_le32 m a w) b = read_le32 m b"
  "unat a + 4 \<le> 2 ^ 64 \<Longrightarrow> unat b + 4 \<le> 2 ^ 64 \<Longrightarrow> unat a + 4 \<le> unat b \<or> unat b + 4 \<le> unat a \<Longrightarrow>
     read_le32 (write_magic m a bs) b = read_le32 m b"
  "unat a + 2 \<le> 2 ^ 64 \<Longrightarrow> unat b + 4 \<le> 2 ^ 64 \<Longrightarrow> unat a + 2 \<le> unat b \<or> unat b + 4 \<le> unat a \<Longrightarrow>
     read_magic (write_le16 m a v) b = read_magic m b"
  "unat a + 4 \<le> 2 ^ 64 \<Longrightarrow> unat b + 4 \<le> 2 ^ 64 \<Longrightarrow> unat a + 4 \<le> unat b \<or> unat b + 4 \<le> unat a \<Longrightarrow>
     read_magic (write_le32 m a w) b = read_magic m b"
  "unat a + 4 \<le> 2 ^ 64 \<Longrightarrow> unat b + 4 \<le> 2 ^ 64 \<Longrightarrow> unat a + 4 \<le> unat b \<or> unat b + 4 \<le> unat a \<Longrightarrow>
     read_magic (write_magic m a bs) b = read_magic m b"
  by (rule read_le16_agree read_le32_agree read_magic_agree;
      auto intro!: write_le16_outside write_le32_outside write_magic_outside)+

lemma read_zero:
  "read_le16 (\<lambda>_. 0) b = 0" "read_le32 (\<lambda>_. 0) b = 0" "read_magic (\<lambda>_. 0) b = [0, 0, 0, 0]"
  by (simp_all add: read_le16_def read_le32_def read_magic_def)

lemma read_write_magic_same:
  "read_magic (write_magic m a [b0, b1, b2, b3]) a = [b0, b1, b2, b3]"
  by (simp add: read_magic_def write_magic_def)

lemmas ex_eval = qcom_smem_alloc_private_def qcom_smem_get_private_def Let_def
  ptable_entry_to_phdr_def ptable_entry_offset_def ptable_entry_size_def
  ptable_entry_cacheline_def phdr_to_first_uncached_entry_def phdr_to_last_uncached_entry_def
  phdr_to_last_cached_entry_def phdr_to_first_cached_entry_def phdr_offset_free_uncached_def
  phdr_offset_free_cached_def phdr_size_def IN_PARTITION_RANGE_def ALIGN_def
  entry_canary_def entry_item_def entry_size_def entry_padding_data_def entry_padding_hdr_def
  uncached_entry_next_def cached_entry_next_def uncached_entry_to_item_def
  cached_entry_to_item_def matched_entry_def get_private_cached_def
  write_private_entry_def le32_add_cpu_def SMEM_PRIVATE_CANARY_def
  read_over_write read_zero read_write_le16_same read_write_le32_same read_write_magic_same
  ex_mem_def ex_mem_cached_def ex_mem_item3_def ex_smem_def SMEM_PART_MAGIC_def SMEM_PTABLE_MAGIC_def
  ex_store_def ex_mem_zero_def ex_mem_five_def ex_mem_crossed_def
  alloc_private_walk.simps [of _ "numeral _"] get_private_uncached_walk.simps [of _ "numeral _"]
  get_private_cached_walk.simps [of _ "numeral _"]

lemma ex_geometry:
  "ptable_entry_to_phdr ex_smem ex_mem 0x13020 = 0x12800"
  "ptable_entry_size ex_mem 0x13020 = 64"
  "phdr_to_last_uncached_entry ex_mem 0x12800 = 0x12820"
  "phdr_to_last_cached_entry ex_mem 0x12800 = 0x12840"
  "phdr_to_first_uncached_entry 0x12800 = 0x12820"
  "alloc_private_walk ex_mem 0x12820 0x12820 item = Fallthrough 0x12820"
  by (simp_all add: ex_eval)

lemma ex_alloc_zero:
  "qcom_smem_alloc_private ex_smem ex_mem 0x13020 8 0 = (Inr (), ex_mem_zero)"
  by (simp add: ex_eval)



lemma ex_alloc_wrapped:
  "fst (qcom_smem_alloc_private ex_smem ex_mem 0x13020 8 0xfffffffffffffff8) = Inr ()"
  "phdr_offset_free_uncached
     (snd (qcom_smem_alloc_private ex_smem ex_mem 0x13020 8 0xfffffffffffffff8)) 0x12800 = 40"
  "entry_size
     (snd (qcom_smem_alloc_private ex_smem ex_mem 0x13020 8 0xfffffffffffffff8)) 0x12820 =
     0xfffffff8"
  by (simp_all add: ex_eval)

lemma ex_alloc_crossed:
  "qcom_smem_alloc_private ex_smem ex_mem_zero 0x13020 9 8 = (Inr (), ex_mem_crossed)"
  by (simp add: ex_eval)


lemma ex_get_five: "qcom_smem_get_private ex_smem ex_mem_five 0x13020 8 = Inr (0x12830, 5)"
  by (simp add: ex_eval)

lemma ex_alloc_five_again:
  "qcom_smem_alloc_private ex_smem ex_mem_five 0x13020 8 7 = (Inl EEXIST, ex_mem_five)"
  by (simp add: ex_eval)

lemma ex_offsets:
  "phdr_offset_free_uncached ex_mem 0x12800 = 32" "phdr_offset_free_cached ex_mem 0x12800 = 64"
  "phdr_offset_free_uncached ex_mem_zero 0x12800 = 48"
  "phdr_offset_free_cached ex_mem_zero 0x12800 = 64"
  "phdr_offset_free_uncached ex_mem_crossed 0x12800 = 72"
  "phdr_offset_free_cached ex_mem_crossed 0x12800 = 64"
  "entry_item ex_mem_zero 0x12820 = 8" "entry_item ex_mem_crossed 0x12820 = 9"
  by (simp_all add: ex_eval)


lemma ex_get_item3:
  "qcom_smem_get_private ex_smem ex_mem_item3 0x13020 3 = Inr (0x12830, 8)"
  by (simp add: ex_eval)

lemma ex_ptable:
  "qcom_smem_get_ptable ex_smem ex_mem = Inr 0x13000"
  "read_le32 ex_mem (0x13000 + 8) = 1"
  by (simp_all add: qcom_smem_get_ptable_def memcmp_magic_def ptable_version_def SZ_4K_def ex_eval)

lemma ex_free_space:
  "partition_free_space ex_smem ex_mem 0x13020 = Inr 32"
  by (simp add: partition_free_space_def ex_eval)





lemma ex_free_space_five:
  "partition_free_space ex_smem ex_mem_five 0x13020 = Inr 8"
  by (simp add: partition_free_space_def ex_eval)

lemma matched_entry_size_zero:
  "entry_size m e = 0 \<Longrightarrow> matched_entry m e item_ptr partition_size lo hi = Inl EINVAL"
  by (simp add: matched_entry_def Let_def)


lemma ex_alloc_zero_again:
  "fst (qcom_smem_alloc_private ex_smem ex_mem_zero 0x13020 8 0) = Inr ()"
  by (simp add: ex_eval)

section \<open>Partition table reader: properties\<close>

text \<open>
  C8. The reader looks at the address \<open>region_size - 4096\<close> bytes into the primary region.
  It fails if and only if the four magic bytes there are not "$TOC" or the version field
  is not 1. When it succeeds, it returns that very address, so the entry count and the
  entries are the ones stored in the table, read in place.
\<close>

theorem qcom_smem_get_ptable_reads_table:
  "let table = virt_base (regions smem ! 0) + region_size (regions smem ! 0) - 4096 in
     ((\<exists>e. qcom_smem_get_ptable smem m = Inl e) \<longleftrightarrow>
        (read_magic m table \<noteq> [0x24, 0x54, 0x4f, 0x43] \<or> read_le32 m (table + 4) \<noteq> 1)) \<and>
     (\<forall>p. qcom_smem_get_ptable smem m = Inr p \<longrightarrow>
        p = table \<and> ptable_num_entries m p = read_le32 m (table + 8) \<and>
        (\<forall>i. ptable_entry p i = table + 32 + 48 * ucast i))"
  by (auto simp: qcom_smem_get_ptable_def Let_def memcmp_magic_def SMEM_PTABLE_MAGIC_def
      SZ_4K_def ptable_version_def ptable_num_entries_def ptable_entry_def)

theorem qcom_smem_get_ptable_reads_table_witness:
  "qcom_smem_get_ptable ex_smem ex_mem = Inr 0x13000 \<and>
   ptable_num_entries ex_mem 0x13000 = 1 \<and> ptable_entry 0x13000 0 = 0x13020"
proof -
  have "virt_base (regions ex_smem ! 0) + region_size (regions ex_smem ! 0) - 4096 = 0x13000"
    by (simp add: ex_smem_def)
  with qcom_smem_get_ptable_reads_table [of ex_smem ex_mem] ex_ptable
  show ?thesis by (simp add: Let_def)
qed

section \<open>Public entry points: properties\<close>

text \<open>
  C6 (as amended). Once the driver is probed, \<open>qcom_smem_alloc\<close> rejects an item below 8
  and an item at or above the handle's item count before anything else: the lock is not
  taken, nothing is routed and the state is exactly the one before the call. Both
  rejections return the same error, \<open>-EINVAL\<close>.
\<close>

theorem qcom_smem_alloc_rejects_item_first:
  "smem_handle s = Some smem \<Longrightarrow>
     (item < 8 \<longrightarrow> qcom_smem_alloc s host item sz = (Inl EINVAL, s)) \<and>
     (item \<ge> item_count smem \<longrightarrow> qcom_smem_alloc s host item sz = (Inl EINVAL, s))"
  by (simp add: qcom_smem_alloc_def SMEM_ITEM_LAST_FIXED_def)

theorem qcom_smem_alloc_rejects_item_first_witness:
  "qcom_smem_alloc (ex_state ex_mem) 5 3 16 = (Inl EINVAL, ex_state ex_mem) \<and>
   qcom_smem_alloc (ex_state ex_mem) 5 512 16 = (Inl EINVAL, ex_state ex_mem)"
  using qcom_smem_alloc_rejects_item_first [of "ex_state ex_mem" ex_smem 3 5 16]
    qcom_smem_alloc_rejects_item_first [of "ex_state ex_mem" ex_smem 512 5 16]
  by (simp add: ex_state_def ex_smem_def)

text \<open>
  C6 as stated fails: the rejection of the reserved item 3 and the rejection of the
  out-of-range item 512 are not distinct errors.
\<close>

theorem qcom_smem_alloc_rejections_same_errno:
  "\<not> (fst (qcom_smem_alloc (ex_state ex_mem) 5 3 16) \<noteq>
       fst (qcom_smem_alloc (ex_state ex_mem) 5 512 16))"
  by (simp add: qcom_smem_alloc_def ex_state_def ex_smem_def SMEM_ITEM_LAST_FIXED_def)




text \<open>
  C9 (as amended). A call of \<open>qcom_smem_alloc\<close> or \<open>qcom_smem_get\<close> does one of two things.
  Either it takes the hardware lock, accesses the shared memory and releases the lock, in
  this order and nothing else (a lookup leaving the memory as it was). Or it returns with
  the state untouched, and then it has not looked at the shared memory either: for any
  other content of the shared memory it returns the same value and leaves that content in
  place. On a probed driver and an item the entry point accepts, the first happens unless
  a remote processor keeps the lock, in which case the call fails with the error of the
  lock. \<open>qcom_smem_get_free_space\<close> does not take the lock: on a probed driver it reads
  the shared memory and does nothing else.
\<close>

theorem qcom_smem_lock_discipline:
  "((trace (snd (qcom_smem_alloc s host item sz)) =
       trace s @ [Hwspin_lock, Shared_mem_access, Hwspin_unlock] \<and>
     hwlock_held (snd (qcom_smem_alloc s host item sz)) = False) \<or>
    (snd (qcom_smem_alloc s host item sz) = s \<and>
     (\<forall>m. qcom_smem_alloc (s\<lparr>shmem := m\<rparr>) host item sz =
            (fst (qcom_smem_alloc s host item sz), s\<lparr>shmem := m\<rparr>)))) \<and>
   ((trace (snd (qcom_smem_get s host item)) =
       trace s @ [Hwspin_lock, Shared_mem_access, Hwspin_unlock] \<and>
     hwlock_held (snd (qcom_smem_get s host item)) = False \<and>
     shmem (snd (qcom_smem_get s host item)) = shmem s) \<or>
    (snd (qcom_smem_get s host item) = s \<and>
     (\<forall>m. qcom_smem_get (s\<lparr>shmem := m\<rparr>) host item =
            (fst (qcom_smem_get s host item), s\<lparr>shmem := m\<rparr>)))) \<and>
   (smem_handle s = Some smem \<and> 8 \<le> item \<and> item < item_count smem \<longrightarrow>
      (if hwlock_remote s then qcom_smem_alloc s host item sz = (Inl ETIMEDOUT, s)
       else trace (snd (qcom_smem_alloc s host item sz)) =
              trace s @ [Hwspin_lock, Shared_mem_access, Hwspin_unlock])) \<and>
   (smem_handle s = Some smem \<and> item < item_count smem \<longrightarrow>
      (if hwlock_remote s then qcom_smem_get s host item = (Inl ETIMEDOUT, s)
       else trace (snd (qcom_smem_get s host item)) =
              trace s @ [Hwspin_lock, Shared_mem_access, Hwspin_unlock])) \<and>
   (smem_handle s = Some smem \<longrightarrow>
      trace (snd (qcom_smem_get_free_space s host)) = trace s @ [Shared_mem_access] \<and>
      hwlock_held (snd (qcom_smem_get_free_space s host)) = hwlock_held s \<and>
      shmem (snd (qcom_smem_get_free_space s host)) = shmem s)"
proof (intro conjI)
  show "(trace (snd (qcom_smem_alloc s host item sz)) =
       trace s @ [Hwspin_lock, Shared_mem_access, Hwspin_unlock] \<and>
     hwlock_held (snd (qcom_smem_alloc s host item sz)) = False) \<or>
    (snd (qcom_smem_alloc s host item sz) = s \<and>
     (\<forall>m. qcom_smem_alloc (s\<lparr>shmem := m\<rparr>) host item sz =
            (fst (qcom_smem_alloc s host item sz), s\<lparr>shmem := m\<rparr>)))"
    by (auto simp: qcom_smem_alloc_def hwspin_lock_timeout_irqsave_def
        hwspin_unlock_irqrestore_def shared_mem_access_def Let_def
        split: option.splits prod.splits)
  show "(trace (snd (qcom_smem_get s host item)) =
       trace s @ [Hwspin_lock, Shared_mem_access, Hwspin_unlock] \<and>
     hwlock_held (snd (qcom_smem_get s host item)) = False \<and>
     shmem (snd (qcom_smem_get s host item)) = shmem s) \<or>
    (snd (qcom_smem_get s host item) = s \<and>
     (\<forall>m. qcom_smem_get (s\<lparr>shmem := m\<rparr>) host item =
            (fst (qcom_smem_get s host item), s\<lparr>shmem := m\<rparr>)))"
    by (auto simp: qcom_smem_get_def hwspin_lock_timeout_irqsave_def
        hwspin_unlock_irqrestore_def shared_mem_access_def Let_def
        split: option.splits prod.splits)
  show "smem_handle s = Some smem \<and> 8 \<le> item \<and> item < item_count smem \<longrightarrow>
      (if hwlock_remote s then qcom_smem_alloc s host item sz = (Inl ETIMEDOUT, s)
       else trace (snd (qcom_smem_alloc s host item sz)) =
              trace s @ [Hwspin_lock, Shared_mem_access, Hwspin_unlock])"
    by (auto simp: qcom_smem_alloc_def hwspin_lock_timeout_irqsave_def
        hwspin_unlock_irqrestore_def shared_mem_access_def Let_def SMEM_ITEM_LAST_FIXED_def
        split: option.splits prod.splits)
  show "smem_handle s = Some smem \<and> item < item_count smem \<longrightarrow>
      (if hwlock_remote s then qcom_smem_get s host item = (Inl ETIMEDOUT, s)
       else trace (snd (qcom_smem_get s host item)) =
              trace s @ [Hwspin_lock, Shared_mem_access, Hwspin_unlock])"
    by (auto simp: qcom_smem_get_def hwspin_lock_timeout_irqsave_def
        hwspin_unlock_irqrestore_def shared_mem_access_def Let_def
        split: option.splits prod.splits)
  show "smem_handle s = Some smem \<longrightarrow>
      trace (snd (qcom_smem_get_free_space s host)) = trace s @ [Shared_mem_access] \<and>
      hwlock_held (snd (qcom_smem_get_free_space s host)) = hwlock_held s \<and>
      shmem (snd (qcom_smem_get_free_space s host)) = shmem s"
    by (simp add: qcom_smem_get_free_space_def shared_mem_access_def Let_def)
qed

theorem qcom_smem_lock_discipline_witness:
  "trace (snd (qcom_smem_alloc (ex_state ex_mem) 5 8 8)) =
     [Hwspin_lock, Shared_mem_access, Hwspin_unlock] \<and>
   trace (snd (qcom_smem_get (ex_state ex_mem) 5 8)) =
     [Hwspin_lock, Shared_mem_access, Hwspin_unlock] \<and>
   qcom_smem_alloc ((ex_state ex_mem)\<lparr>hwlock_remote := True\<rparr>) 5 8 8 =
     (Inl ETIMEDOUT, (ex_state ex_mem)\<lparr>hwlock_remote := True\<rparr>) \<and>
   qcom_smem_get ((ex_state ex_mem)\<lparr>hwlock_remote := True\<rparr>) 5 8 =
     (Inl ETIMEDOUT, (ex_state ex_mem)\<lparr>hwlock_remote := True\<rparr>) \<and>
   trace (snd (qcom_smem_get_free_space (ex_state ex_mem) 5)) = [Shared_mem_access]"
proof -
  note t1 = qcom_smem_lock_discipline [of "ex_state ex_mem" 5 8 8 ex_smem]
  note t2 = qcom_smem_lock_discipline
    [of "(ex_state ex_mem)\<lparr>hwlock_remote := True\<rparr>" 5 8 8 ex_smem]
  have h: "smem_handle (ex_state ex_mem) = Some ex_smem" "\<not> hwlock_remote (ex_state ex_mem)"
    "trace (ex_state ex_mem) = []" "(8 :: 32 word) < item_count ex_smem"
    by (simp_all add: ex_state_def ex_smem_def)
  from t1 h have "trace (snd (qcom_smem_alloc (ex_state ex_mem) 5 8 8)) =
     [Hwspin_lock, Shared_mem_access, Hwspin_unlock]" by simp
  moreover from t1 h have "trace (snd (qcom_smem_get (ex_state ex_mem) 5 8)) =
     [Hwspin_lock, Shared_mem_access, Hwspin_unlock]" by simp
  moreover from t1 h
  have "trace (snd (qcom_smem_get_free_space (ex_state ex_mem) 5)) = [Shared_mem_access]"
    by simp
  moreover from t2 h
  have "qcom_smem_alloc ((ex_state ex_mem)\<lparr>hwlock_remote := True\<rparr>) 5 8 8 =
     (Inl ETIMEDOUT, (ex_state ex_mem)\<lparr>hwlock_remote := True\<rparr>)" by simp
  moreover from t2 h
  have "qcom_smem_get ((ex_state ex_mem)\<lparr>hwlock_remote := True\<rparr>) 5 8 =
     (Inl ETIMEDOUT, (ex_state ex_mem)\<lparr>hwlock_remote := True\<rparr>)" by simp
  ultimately show ?thesis by simp
qed

text \<open>
  C9 as stated fails: the free-space query reads the shared memory with the lock not held.
  For the example partition it returns the 32 free bytes, and after item 8 was allocated
  with 5 bytes it returns the 8 bytes that are left.
\<close>

theorem qcom_smem_get_free_space_unlocked:
  "\<not> locked_accesses False (trace (snd (qcom_smem_get_free_space (ex_state ex_mem) 5))) \<and>
   fst (qcom_smem_get_free_space (ex_state ex_mem) 5) = 32 \<and>
   fst (qcom_smem_get_free_space (ex_state ex_mem_five) 5) = 8"
  using ex_free_space ex_free_space_five
  by (simp add: qcom_smem_get_free_space_def ex_state_def shared_mem_access_def Let_def
      ex_smem_def SMEM_HOST_COUNT_def)

section \<open>Allocation followed by lookup\<close>




section \<open>Failed and repeated allocations\<close>




section \<open>The order of the two free offsets\<close>

text \<open>
  When the uncached list ends exactly at the free offset, \<open>qcom_smem_alloc_private\<close>
  keeps the uncached free offset at or below the cached one.
\<close>

lemma alloc_private_keeps_free_order:
  assumes phdr: "phdr = ptable_entry_to_phdr smem m entry"
    and psz: "psz = ptable_entry_size m entry"
    and endp: "endp = phdr_to_last_uncached_entry m phdr"
    and walk: "alloc_private_walk m (phdr_to_first_uncached_entry phdr) endp item =
                 Fallthrough endp"
    and nowrap: "unat phdr + unat psz + unat sz + 24 \<le> 2 ^ 64"
    and before: "phdr_offset_free_uncached m phdr \<le> phdr_offset_free_cached m phdr"
    and m': "m' = snd (qcom_smem_alloc_private smem m entry item sz)"
  shows "phdr_offset_free_uncached m' phdr \<le> phdr_offset_free_cached m' phdr"
proof (cases "fst (qcom_smem_alloc_private smem m entry item sz)")
  case (Inl e)
  then have "m' = m"
    unfolding m' by (metis qcom_smem_alloc_private_fail prod.collapse)
  with before show ?thesis by simp
next
  case (Inr u)
  then have ok: "fst (qcom_smem_alloc_private smem m entry item sz) = Inr ()" by simp
  have e: "endp = phdr + ucast (phdr_offset_free_uncached m phdr)"
    by (simp add: endp phdr_to_last_uncached_entry_def)
  have w: "alloc_private_walk m (phdr + 32) endp item = Fallthrough endp"
    using walk by (simp add: phdr_to_first_uncached_entry_def)
  note ef = alloc_private_effect [OF phdr psz refl refl e refl w ok nowrap m']
  from ef(3) ef(13) ef(14) show ?thesis by (simp add: word_le_nat_alt)
qed

text \<open>
  C7. The allocation does not keep the order in every state. Allocating item 8 with size 0
  in the empty example partition succeeds and leaves the offsets at 48 and 64. The walk of
  the next allocation (item 9, 8 bytes) stops at 0x12820, one header before the free
  offset, since \<open>(hdr + 1) < end\<close> is false there: the space check passes for
  \<open>hdr + 24\<close>, the header of item 8 is overwritten, and the uncached free offset is
  advanced from 48 to 72, beyond the cached free offset 64.
\<close>

theorem alloc_private_free_offsets_cross:
  "qcom_smem_alloc_private ex_smem ex_mem 0x13020 8 0 = (Inr (), ex_mem_zero) \<and>
   phdr_offset_free_uncached ex_mem_zero 0x12800 = 48 \<and>
   phdr_offset_free_cached ex_mem_zero 0x12800 = 64 \<and>
   entry_item ex_mem_zero 0x12820 = 8 \<and>
   qcom_smem_alloc_private ex_smem ex_mem_zero 0x13020 9 8 = (Inr (), ex_mem_crossed) \<and>
   phdr_offset_free_uncached ex_mem_crossed 0x12800 = 72 \<and>
   phdr_offset_free_cached ex_mem_crossed 0x12800 = 64 \<and>
   entry_item ex_mem_crossed 0x12820 = 9"
  by (simp add: ex_alloc_zero ex_alloc_crossed ex_offsets)

text \<open>The two allocations in sequence: the uncached free offset ends beyond the cached one.\<close>

theorem alloc_private_free_offsets_cross_witness:
  "phdr_offset_free_uncached
     (snd (qcom_smem_alloc_private ex_smem
       (snd (qcom_smem_alloc_private ex_smem ex_mem 0x13020 8 0)) 0x13020 9 8)) 0x12800 = 72 \<and>
   phdr_offset_free_cached
     (snd (qcom_smem_alloc_private ex_smem
       (snd (qcom_smem_alloc_private ex_smem ex_mem 0x13020 8 0)) 0x13020 9 8)) 0x12800 = 64"
  using alloc_private_free_offsets_cross by simp

section \<open>The space check\<close>

text \<open>
  When the walk ends at the free offset and the size arithmetic does not wrap around, the
  allocation fails with \<open>-ENOSPC\<close> exactly when the free offset plus the 16-byte header
  plus the size rounded up to 8 bytes goes beyond the cached free offset; otherwise it
  stores the header and advances the uncached free offset by that amount.
\<close>

lemma alloc_private_space_check:
  assumes phdr: "phdr = ptable_entry_to_phdr smem m entry"
    and psz: "psz = ptable_entry_size m entry"
    and endp: "endp = phdr_to_last_uncached_entry m phdr"
    and cached: "cached = phdr_to_last_cached_entry m phdr"
    and rng: "IN_PARTITION_RANGE endp 0 phdr cached" "\<not> cached > phdr + ucast psz"
    and walk: "alloc_private_walk m (phdr_to_first_uncached_entry phdr) endp item =
                 Fallthrough endp"
    and nowrap: "unat phdr + unat psz + unat sz + 24 \<le> 2 ^ 64"
    and r: "r = qcom_smem_alloc_private smem m entry item sz"
    and need: "need = 16 + (unat sz + 7) div 8 * 8"
  shows "fst r = Inl ENOSPC \<longleftrightarrow> unat endp + need > unat cached"
    and "\<not> unat endp + need > unat cached \<Longrightarrow>
         fst r = Inr () \<and>
         entry_canary (snd r) endp = SMEM_PRIVATE_CANARY \<and>
         entry_item (snd r) endp = ucast item \<and>
         unat (entry_size (snd r) endp) = (unat sz + 7) div 8 * 8 \<and>
         entry_padding_hdr (snd r) endp = 0 \<and>
         unat (phdr_offset_free_uncached (snd r) phdr) =
           unat (phdr_offset_free_uncached m phdr) + need \<and>
         phdr_offset_free_cached (snd r) phdr = phdr_offset_free_cached m phdr"
proof -
  let ?uf = "phdr_offset_free_uncached m phdr"
  let ?cf = "phdr_offset_free_cached m phdr"
  let ?a = "16 + ALIGN sz 8 :: addr"
  have e: "endp = phdr + ucast ?uf" by (simp add: endp phdr_to_last_uncached_entry_def)
  have c: "cached = phdr + ucast ?cf" by (simp add: cached phdr_to_last_cached_entry_def)
  have w: "alloc_private_walk m (phdr + 32) endp item = Fallthrough endp"
    using walk by (simp add: phdr_to_first_uncached_entry_def)
  note g = partition_geometry [OF rng [unfolded e c]]
  have "unat sz + 7 < 2 ^ 64" using nowrap by simp
  then have A: "unat (ALIGN sz 8) = (unat sz + 7) div 8 * 8" by (rule unat_ALIGN_8)
  note rb = round8_bounds [of "unat sz"]
  have a: "unat ?a = need" using A rb nowrap by (simp add: unat_word_ariths need)
  have "unat endp + unat ?a < 2 ^ 64" using e g a rb nowrap by (simp add: need)
  then have s: "unat (endp + ?a) = unat endp + need"
    using a by (simp add: unat_add_nowrap)
  have sp: "endp + ?a > cached \<longleftrightarrow> unat endp + need > unat cached"
    using s by (simp add: word_less_nat_alt)
  have eq: "r = (if endp + ?a > cached then (Inl ENOSPC, m)
      else (Inr (), le32_add_cpu (write_private_entry m endp item sz) (phdr + 12) (ucast ?a)))"
    using rng w unfolding r qcom_smem_alloc_private_eq [OF phdr psz refl refl] e c by simp
  show "fst r = Inl ENOSPC \<longleftrightarrow> unat endp + need > unat cached"
    using eq sp by simp
  assume n: "\<not> unat endp + need > unat cached"
  with eq sp have ok: "fst (qcom_smem_alloc_private smem m entry item sz) = Inr ()"
    by (simp add: r)
  note ef = alloc_private_effect [OF phdr psz refl refl e refl w ok nowrap refl]
  have r32: "(unat sz + 7) div 8 * 8 < 2 ^ 32"
    using ef(3) unat_32_bound [of ?cf] by simp
  have "unat (entry_size (snd r) endp) = (unat sz + 7) div 8 * 8"
    using A r32 by (simp add: r ef(9) unat_ucast_mod)
  with ok ef show "fst r = Inr () \<and>
         entry_canary (snd r) endp = SMEM_PRIVATE_CANARY \<and>
         entry_item (snd r) endp = ucast item \<and>
         unat (entry_size (snd r) endp) = (unat sz + 7) div 8 * 8 \<and>
         entry_padding_hdr (snd r) endp = 0 \<and>
         unat (phdr_offset_free_uncached (snd r) phdr) =
           unat (phdr_offset_free_uncached m phdr) + need \<and>
         phdr_offset_free_cached (snd r) phdr = phdr_offset_free_cached m phdr"
    by (simp add: r need)
qed

text \<open>
  C4. For the size \<open>2^64 - 8\<close> the sum \<open>sizeof(*hdr) + ALIGN(size, 8)\<close> wraps around to
  8. In the empty example partition (32 bytes free) the walk ends at the free offset, the
  allocation succeeds, records the entry size 0xfffffff8 and advances the uncached free
  offset by 8, from 32 to 40.
\<close>

theorem alloc_private_size_wraps:
  "alloc_private_walk ex_mem (phdr_to_first_uncached_entry 0x12800)
     (phdr_to_last_uncached_entry ex_mem 0x12800) 8 =
     Fallthrough (phdr_to_last_uncached_entry ex_mem 0x12800) \<and>
   phdr_offset_free_uncached ex_mem 0x12800 = 32 \<and>
   phdr_offset_free_cached ex_mem 0x12800 = 64 \<and>
   fst (qcom_smem_alloc_private ex_smem ex_mem 0x13020 8 0xfffffffffffffff8) = Inr () \<and>
   phdr_offset_free_uncached
     (snd (qcom_smem_alloc_private ex_smem ex_mem 0x13020 8 0xfffffffffffffff8)) 0x12800 = 40 \<and>
   entry_size
     (snd (qcom_smem_alloc_private ex_smem ex_mem 0x13020 8 0xfffffffffffffff8)) 0x12820 =
     0xfffffff8"
  by (simp add: ex_geometry ex_alloc_wrapped ex_offsets)

text \<open>The allocation of \<open>2^64 - 8\<close> bytes succeeds in a partition with 32 free bytes.\<close>

theorem alloc_private_size_wraps_witness:
  "fst (qcom_smem_alloc_private ex_smem ex_mem 0x13020 8 0xfffffffffffffff8) = Inr () \<and>
   unat (phdr_offset_free_cached ex_mem 0x12800) -
     unat (phdr_offset_free_uncached ex_mem 0x12800) = 32"
  using alloc_private_size_wraps by simp

section \<open>Corrupt canaries\<close>

lemma uncached_visited_simps:
  "\<not> (e < endp \<and> e + 16 < endp) \<Longrightarrow> uncached_visited m e endp item = []"
  "e < endp \<Longrightarrow> e + 16 < endp \<Longrightarrow> entry_canary m e \<noteq> SMEM_PRIVATE_CANARY \<Longrightarrow>
     uncached_visited m e endp item = [e]"
  "e < endp \<Longrightarrow> e + 16 < endp \<Longrightarrow> entry_canary m e = SMEM_PRIVATE_CANARY \<Longrightarrow>
     ucast (entry_item m e) = item \<Longrightarrow> uncached_visited m e endp item = [e]"
  "e < endp \<Longrightarrow> e + 16 < endp \<Longrightarrow> entry_canary m e = SMEM_PRIVATE_CANARY \<Longrightarrow>
     ucast (entry_item m e) \<noteq> item \<Longrightarrow> uncached_entry_next m e \<le> e \<Longrightarrow>
     uncached_visited m e endp item = [e]"
  "e < endp \<Longrightarrow> e + 16 < endp \<Longrightarrow> entry_canary m e = SMEM_PRIVATE_CANARY \<Longrightarrow>
     ucast (entry_item m e) \<noteq> item \<Longrightarrow> \<not> uncached_entry_next m e \<le> e \<Longrightarrow>
     uncached_visited m e endp item = e # uncached_visited m (uncached_entry_next m e) endp item"
  by (subst uncached_visited.simps, auto)+

lemma cached_visited_simps:
  "\<not> e > cached_end \<Longrightarrow> cached_visited m e cached_end item cl = []"
  "e > cached_end \<Longrightarrow> entry_canary m e \<noteq> SMEM_PRIVATE_CANARY \<Longrightarrow>
     cached_visited m e cached_end item cl = [e]"
  "e > cached_end \<Longrightarrow> entry_canary m e = SMEM_PRIVATE_CANARY \<Longrightarrow>
     ucast (entry_item m e) = item \<Longrightarrow> cached_visited m e cached_end item cl = [e]"
  "e > cached_end \<Longrightarrow> entry_canary m e = SMEM_PRIVATE_CANARY \<Longrightarrow>
     ucast (entry_item m e) \<noteq> item \<Longrightarrow> cached_entry_next m e cl \<ge> e \<Longrightarrow>
     cached_visited m e cached_end item cl = [e]"
  "e > cached_end \<Longrightarrow> entry_canary m e = SMEM_PRIVATE_CANARY \<Longrightarrow>
     ucast (entry_item m e) \<noteq> item \<Longrightarrow> \<not> cached_entry_next m e cl \<ge> e \<Longrightarrow>
     cached_visited m e cached_end item cl =
       e # cached_visited m (cached_entry_next m e cl) cached_end item cl"
  by (subst cached_visited.simps, auto)+

lemma get_cached_walk_simps:
  "\<not> e > cached_end \<Longrightarrow> get_private_cached_walk m e cached_end item psz cl = Fallthrough e"
  "e > cached_end \<Longrightarrow> entry_canary m e \<noteq> SMEM_PRIVATE_CANARY \<Longrightarrow>
     get_private_cached_walk m e cached_end item psz cl = Return (Inl EINVAL)"
  "e > cached_end \<Longrightarrow> entry_canary m e = SMEM_PRIVATE_CANARY \<Longrightarrow>
     ucast (entry_item m e) = item \<Longrightarrow>
     get_private_cached_walk m e cached_end item psz cl =
       Return (matched_entry m e (cached_entry_to_item m e) psz cached_end e)"
  "e > cached_end \<Longrightarrow> entry_canary m e = SMEM_PRIVATE_CANARY \<Longrightarrow>
     ucast (entry_item m e) \<noteq> item \<Longrightarrow> cached_entry_next m e cl \<ge> e \<Longrightarrow>
     get_private_cached_walk m e cached_end item psz cl = Return (Inl EINVAL)"
  "e > cached_end \<Longrightarrow> entry_canary m e = SMEM_PRIVATE_CANARY \<Longrightarrow>
     ucast (entry_item m e) \<noteq> item \<Longrightarrow> \<not> cached_entry_next m e cl \<ge> e \<Longrightarrow>
     get_private_cached_walk m e cached_end item psz cl =
       get_private_cached_walk m (cached_entry_next m e cl) cached_end item psz cl"
  by (subst get_private_cached_walk.simps, auto)+

lemma uncached_bad_canary:
  assumes "e \<in> set (uncached_visited m e0 endp item)"
    and "entry_canary m e \<noteq> SMEM_PRIVATE_CANARY"
  shows "alloc_private_walk m e0 endp item = Return EINVAL \<and>
    get_private_uncached_walk m e0 endp item psz = Return (Inl EINVAL) \<and>
    last (uncached_visited m e0 endp item) = e"
  using assms
proof (induction m e0 endp item rule: uncached_visited.induct)
  case (1 m e0 endp item)
  have c: "e0 < endp" "e0 + 16 < endp"
    using "1.prems"(1) by (auto simp: uncached_visited_simps(1) intro: ccontr)
  {
    assume ok: "entry_canary m e0 = SMEM_PRIVATE_CANARY"
    with "1.prems" have ne: "e \<noteq> e0" by auto
    have i: "ucast (entry_item m e0) \<noteq> item"
      using "1.prems"(1) ne c ok by (auto simp: uncached_visited_simps(3))
    have n: "\<not> uncached_entry_next m e0 \<le> e0"
      using "1.prems"(1) ne c ok i by (auto simp: uncached_visited_simps(4))
    have v: "uncached_visited m e0 endp item =
        e0 # uncached_visited m (uncached_entry_next m e0) endp item"
      using c ok i n by (simp add: uncached_visited_simps(5))
    with "1.prems"(1) ne
    have m: "e \<in> set (uncached_visited m (uncached_entry_next m e0) endp item)" by simp
    note ih = "1.IH" [OF _ _ _ _ m "1.prems"(2)]
    have "alloc_private_walk m e0 endp item = Return EINVAL \<and>
      get_private_uncached_walk m e0 endp item psz = Return (Inl EINVAL) \<and>
      last (uncached_visited m e0 endp item) = e"
      using c ok i n ih v m
      by (auto simp: alloc_walk_simps(5) get_uncached_walk_simps(5))
  }
  moreover {
    assume bad: "entry_canary m e0 \<noteq> SMEM_PRIVATE_CANARY"
    then have "uncached_visited m e0 endp item = [e0]"
      using c by (simp add: uncached_visited_simps(2))
    with "1.prems"(1) bad c
    have "alloc_private_walk m e0 endp item = Return EINVAL \<and>
      get_private_uncached_walk m e0 endp item psz = Return (Inl EINVAL) \<and>
      last (uncached_visited m e0 endp item) = e"
      by (simp add: alloc_walk_simps(2) get_uncached_walk_simps(2))
  }
  ultimately show ?case by blast
qed

lemma cached_bad_canary:
  assumes "e \<in> set (cached_visited m e0 cached_end item cl)"
    and "entry_canary m e \<noteq> SMEM_PRIVATE_CANARY"
  shows "get_private_cached_walk m e0 cached_end item psz cl = Return (Inl EINVAL) \<and>
    last (cached_visited m e0 cached_end item cl) = e"
  using assms
proof (induction m e0 cached_end item cl rule: cached_visited.induct)
  case (1 m e0 cached_end item cl)
  have c: "e0 > cached_end"
    using "1.prems"(1) by (auto simp: cached_visited_simps(1) intro: ccontr)
  {
    assume ok: "entry_canary m e0 = SMEM_PRIVATE_CANARY"
    with "1.prems" have ne: "e \<noteq> e0" by auto
    have i: "ucast (entry_item m e0) \<noteq> item"
      using "1.prems"(1) ne c ok by (auto simp: cached_visited_simps(3))
    have n: "\<not> cached_entry_next m e0 cl \<ge> e0"
      using "1.prems"(1) ne c ok i by (auto simp: cached_visited_simps(4))
    have v: "cached_visited m e0 cached_end item cl =
        e0 # cached_visited m (cached_entry_next m e0 cl) cached_end item cl"
      using c ok i n by (simp add: cached_visited_simps(5))
    with "1.prems"(1) ne
    have m: "e \<in> set (cached_visited m (cached_entry_next m e0 cl) cached_end item cl)" by simp
    note ih = "1.IH" [OF _ _ _ _ m "1.prems"(2)]
    have "get_private_cached_walk m e0 cached_end item psz cl = Return (Inl EINVAL) \<and>
      last (cached_visited m e0 cached_end item cl) = e"
      using c ok i n ih v m
      by (auto simp: get_cached_walk_simps(5))
  }
  moreover {
    assume bad: "entry_canary m e0 \<noteq> SMEM_PRIVATE_CANARY"
    then have "cached_visited m e0 cached_end item cl = [e0]"
      using c by (simp add: cached_visited_simps(2))
    with "1.prems"(1) bad c
    have "get_private_cached_walk m e0 cached_end item psz cl = Return (Inl EINVAL) \<and>
      last (cached_visited m e0 cached_end item cl) = e"
      by (simp add: get_cached_walk_simps(2))
  }
  ultimately show ?case by blast
qed

lemmas ex_eval_corrupt = ex_eval ex_mem_bad_header_def ex_mem_bad_canary_def
  ex_mem_cached_bad_canary_def ex_mem_bad_offsets_def
  qcom_smem_partition_header_def memcmp_magic_def phdr_host0_def phdr_host1_def
  uncached_visited.simps [of _ "numeral _"] cached_visited.simps [of _ "numeral _"]

lemma ex_bad_canary:
  "uncached_visited ex_mem_bad_canary 0x12820 0x12838 3 = [0x12820]"
  "entry_canary ex_mem_bad_canary 0x12820 = 0xa5a4"
  "ptable_entry_to_phdr ex_smem ex_mem_bad_canary 0x13020 = 0x12800"
  "ptable_entry_size ex_mem_bad_canary 0x13020 = 64"
  "phdr_to_last_uncached_entry ex_mem_bad_canary 0x12800 = 0x12838"
  by (simp_all add: ex_eval_corrupt)

lemma ex_cached_bad_canary:
  "cached_visited ex_mem_cached_bad_canary 0x12850 0x12848 8 16 = [0x12850]"
  "entry_canary ex_mem_cached_bad_canary 0x12850 = 0xa5a4"
  "ptable_entry_to_phdr ex_smem ex_mem_cached_bad_canary 0x13020 = 0x12800"
  "ptable_entry_size ex_mem_cached_bad_canary 0x13020 = 96"
  "phdr_to_last_uncached_entry ex_mem_cached_bad_canary 0x12800 = 0x12820"
  "phdr_to_last_cached_entry ex_mem_cached_bad_canary 0x12800 = 0x12848"
  "ucast (ptable_entry_cacheline ex_mem_cached_bad_canary 0x13020) = (16 :: addr)"
  "phdr_to_first_cached_entry ex_mem_cached_bad_canary 0x12800 16 = 0x12850"
  "get_private_uncached_walk ex_mem_cached_bad_canary 0x12820 0x12820 8 96 = Fallthrough 0x12820"
  by (simp_all add: ex_eval_corrupt)


text \<open>
  The entries the loops examine. Let \<open>e\<close> be an entry whose canary differs from 0xa5a5. If
  the forward walk over the uncached list examines \<open>e\<close>, then \<open>qcom_smem_alloc_private\<close>
  returns \<open>-EINVAL\<close> and leaves the memory as it was, \<open>qcom_smem_get_private\<close> returns
  \<open>-EINVAL\<close>, and \<open>e\<close> is the last entry the walk examines. If the forward walk of the
  lookup falls through and the backward walk over the cached list examines \<open>e\<close>, then
  \<open>qcom_smem_get_private\<close> returns \<open>-EINVAL\<close> and \<open>e\<close> is the last entry that walk
  examines.
\<close>

lemma bad_canary_aborts:
  assumes "phdr = ptable_entry_to_phdr smem m entry"
    and "psz = ptable_entry_size m entry"
    and "e0 = phdr_to_first_uncached_entry phdr"
    and "uncached_end = phdr_to_last_uncached_entry m phdr"
    and "cached_end = phdr_to_last_cached_entry m phdr"
    and "cacheline = ucast (ptable_entry_cacheline m entry)"
    and "e1 = phdr_to_first_cached_entry m phdr cacheline"
    and "entry_canary m e \<noteq> 0xa5a5"
  shows
    "(e \<in> set (uncached_visited m e0 uncached_end item) \<longrightarrow>
        qcom_smem_alloc_private smem m entry item sz = (Inl EINVAL, m) \<and>
        qcom_smem_get_private smem m entry item = Inl EINVAL \<and>
        last (uncached_visited m e0 uncached_end item) = e) \<and>
     (get_private_uncached_walk m e0 uncached_end item psz = Fallthrough h \<and>
      cached_end \<noteq> phdr + ucast psz \<and>
      e \<in> set (cached_visited m e1 cached_end item cacheline) \<longrightarrow>
        qcom_smem_get_private smem m entry item = Inl EINVAL \<and>
        last (cached_visited m e1 cached_end item cacheline) = e)"
proof (intro conjI impI)
  have bad: "entry_canary m e \<noteq> SMEM_PRIVATE_CANARY"
    using assms(8) by (simp add: SMEM_PRIVATE_CANARY_def)
  {
    assume v: "e \<in> set (uncached_visited m e0 uncached_end item)"
    note b = uncached_bad_canary [OF v bad, of psz]
    show "qcom_smem_alloc_private smem m entry item sz = (Inl EINVAL, m)"
      using b by (simp add: qcom_smem_alloc_private_def Let_def assms(1-5) [symmetric])
    show "qcom_smem_get_private smem m entry item = Inl EINVAL"
      using b
      by (simp add: qcom_smem_get_private_def Let_def assms(1-5) [symmetric])
    show "last (uncached_visited m e0 uncached_end item) = e" using b by simp
  }
  {
    assume a: "get_private_uncached_walk m e0 uncached_end item psz = Fallthrough h \<and>
      cached_end \<noteq> phdr + ucast psz \<and>
      e \<in> set (cached_visited m e1 cached_end item cacheline)"
    note b = cached_bad_canary [OF a [THEN conjunct2, THEN conjunct2] bad, of psz]
    show "qcom_smem_get_private smem m entry item = Inl EINVAL"
      using a b
      by (simp add: qcom_smem_get_private_def get_private_cached_def Let_def
          assms(1-7) [symmetric])
    show "last (cached_visited m e1 cached_end item cacheline) = e" using b by simp
  }
qed

lemma bad_canary_aborts_example:
  "qcom_smem_alloc_private ex_smem ex_mem_bad_canary 0x13020 3 8 =
     (Inl EINVAL, ex_mem_bad_canary) \<and>
   qcom_smem_get_private ex_smem ex_mem_bad_canary 0x13020 3 = Inl EINVAL \<and>
   qcom_smem_get_private ex_smem ex_mem_cached_bad_canary 0x13020 8 = Inl EINVAL"
proof -
  note t1 = bad_canary_aborts [OF ex_bad_canary(3) [symmetric] ex_bad_canary(4) [symmetric]
      refl refl refl refl refl, where e = "0x12820" and item = 3 and sz = 8]
  note t2 = bad_canary_aborts [OF ex_cached_bad_canary(3) [symmetric]
      ex_cached_bad_canary(4) [symmetric] refl refl refl refl refl, where e = "0x12850" and item = 8 and h = "0x12820"]
  have "qcom_smem_alloc_private ex_smem ex_mem_bad_canary 0x13020 3 8 =
     (Inl EINVAL, ex_mem_bad_canary) \<and>
   qcom_smem_get_private ex_smem ex_mem_bad_canary 0x13020 3 = Inl EINVAL"
    using t1 by (simp add: ex_bad_canary ex_geometry(5))
  moreover have "qcom_smem_get_private ex_smem ex_mem_cached_bad_canary 0x13020 8 = Inl EINVAL"
    using t2 by (simp add: ex_cached_bad_canary ex_geometry(5))
  ultimately show ?thesis by simp
qed

lemmas ex_eval_tail = ex_eval ex_mem_zero_bad_canary_def
  uncached_visited.simps [of _ "numeral _"]

lemma ex_tail:
  "phdr_to_last_uncached_entry ex_mem_zero_bad_canary 0x12800 = 0x12830"
  "entry_canary ex_mem_zero_bad_canary 0x12820 = 0xa5a4"
  "entry_item ex_mem_zero_bad_canary 0x12820 = 8"
  "uncached_visited ex_mem_zero_bad_canary 0x12820 0x12830 item = []"
  "qcom_smem_get_private ex_smem ex_mem_zero_bad_canary 0x13020 8 = Inl ENOENT"
  "qcom_smem_get_private ex_smem ex_mem_zero_bad_canary 0x13020 9 = Inl ENOENT"
  "fst (qcom_smem_alloc_private ex_smem ex_mem_zero_bad_canary 0x13020 9 8) = Inr ()"
  "entry_canary (snd (qcom_smem_alloc_private ex_smem ex_mem_zero_bad_canary 0x13020 9 8))
     0x12820 = 0xa5a5"
  "entry_item (snd (qcom_smem_alloc_private ex_smem ex_mem_zero_bad_canary 0x13020 9 8))
     0x12820 = 9"
  by (simp_all add: ex_eval_tail)

text \<open>
  C3. The forward walk does not examine every entry of the list: its condition
  \<open>(hdr + 1) < end\<close> is false for an entry of 16 bytes that ends at the free offset. The
  allocation of item 8 with size 0 in the empty example partition stores such an entry at
  0x12820 (the list ends at 0x12830). With its canary changed to 0xa5a4, the lookups of
  items 8 and 9 return \<open>-ENOENT\<close> instead of \<open>-EINVAL\<close>, and the allocation of item 9
  succeeds and writes its header over the corrupt entry.
\<close>

theorem corrupt_tail_entry_skipped:
  "qcom_smem_alloc_private ex_smem ex_mem 0x13020 8 0 = (Inr (), ex_mem_zero) \<and>
   phdr_to_first_uncached_entry 0x12800 = 0x12820 \<and>
   phdr_to_last_uncached_entry ex_mem_zero_bad_canary 0x12800 = 0x12830 \<and>
   entry_canary ex_mem_zero_bad_canary 0x12820 = 0xa5a4 \<and>
   entry_item ex_mem_zero_bad_canary 0x12820 = 8 \<and>
   qcom_smem_get_private ex_smem ex_mem_zero_bad_canary 0x13020 8 = Inl ENOENT \<and>
   qcom_smem_get_private ex_smem ex_mem_zero_bad_canary 0x13020 9 = Inl ENOENT \<and>
   fst (qcom_smem_alloc_private ex_smem ex_mem_zero_bad_canary 0x13020 9 8) = Inr () \<and>
   entry_canary (snd (qcom_smem_alloc_private ex_smem ex_mem_zero_bad_canary 0x13020 9 8))
     0x12820 = 0xa5a5 \<and>
   entry_item (snd (qcom_smem_alloc_private ex_smem ex_mem_zero_bad_canary 0x13020 9 8))
     0x12820 = 9"
  by (simp add: ex_tail ex_alloc_zero ex_geometry)

text \<open>Neither operation reports the corrupt canary.\<close>

theorem corrupt_tail_entry_skipped_witness:
  "entry_canary ex_mem_zero_bad_canary 0x12820 \<noteq> SMEM_PRIVATE_CANARY \<and>
   qcom_smem_get_private ex_smem ex_mem_zero_bad_canary 0x13020 8 \<noteq> Inl EINVAL \<and>
   fst (qcom_smem_alloc_private ex_smem ex_mem_zero_bad_canary 0x13020 9 8) \<noteq> Inl EINVAL"
  using corrupt_tail_entry_skipped by (simp add: SMEM_PRIVATE_CANARY_def)

section \<open>What an allocation checks of the partition header\<close>

lemma alloc_walk_agree:
  assumes "\<forall>x. unat e \<le> unat x \<and> unat x < unat endp \<longrightarrow> m' x = m x"
    and "unat endp + 16 \<le> 2 ^ 64"
  shows "alloc_private_walk m' e endp item = alloc_private_walk m e endp item"
  using assms
proof (induction m e endp item rule: alloc_private_walk.induct)
  case (1 m hdr endp item)
  show ?case
  proof (cases "hdr < endp \<and> hdr + 16 < endp")
    case False
    then show ?thesis by (simp add: alloc_walk_simps(1))
  next
    case True
    then have c: "hdr < endp" "hdr + 16 < endp" by simp_all
    have h16: "unat (hdr + 16) = unat hdr + 16"
      using unat_add_num [of hdr 16] c(1) "1.prems"(2) by (simp add: word_less_nat_alt)
    with c(2) have lt: "unat hdr + 16 < unat endp" by (simp add: word_less_nat_alt)
    have ag: "\<forall>x. unat hdr \<le> unat x \<and> unat x < unat hdr + 12 \<longrightarrow> m' x = m x"
      using "1.prems"(1) lt by auto
    have b: "unat hdr + 12 \<le> 2 ^ 64" using lt "1.prems"(2) by simp
    note eq = entry_fields_agree [OF ag b]
    have nx: "uncached_entry_next m' hdr = uncached_entry_next m hdr"
      by (simp add: uncached_entry_next_def eq)
    show ?thesis
    proof (cases "entry_canary m hdr = SMEM_PRIVATE_CANARY \<and> ucast (entry_item m hdr) \<noteq> item
        \<and> \<not> uncached_entry_next m hdr \<le> hdr")
      case False
      then show ?thesis
        using c eq nx
        by (subst alloc_private_walk.simps, subst (2) alloc_private_walk.simps) auto
    next
      case True
      then have t: "entry_canary m hdr = SMEM_PRIVATE_CANARY" "ucast (entry_item m hdr) \<noteq> item"
        "\<not> uncached_entry_next m hdr \<le> hdr" by simp_all
      have "unat hdr \<le> unat (uncached_entry_next m hdr)"
        using t(3) by (simp add: word_le_nat_alt)
      then have ag': "\<forall>x. unat (uncached_entry_next m hdr) \<le> unat x \<and> unat x < unat endp \<longrightarrow>
          m' x = m x"
        using "1.prems"(1) by auto
      have "alloc_private_walk m' (uncached_entry_next m hdr) endp item =
          alloc_private_walk m (uncached_entry_next m hdr) endp item"
        using "1.IH" c t ag' "1.prems"(2) by simp
      then show ?thesis
        using c t eq nx by (simp add: alloc_walk_simps(5))
    qed
  qed
qed

lemma ex_bad_header:
  "read_magic ex_mem_bad_header 0x12800 = [0, 0, 0, 0]"
  "qcom_smem_partition_header ex_smem ex_mem_bad_header 0x13020 0 5 = None"
  "qcom_smem_partition_header ex_smem ex_mem 0x13020 0 5 = Some 0x12800"
  "fst (qcom_smem_alloc_private ex_smem ex_mem_bad_header 0x13020 8 5) = Inr ()"
  by (simp_all add: ex_eval_corrupt)

lemma ex_bad_offsets:
  "\<not> IN_PARTITION_RANGE (phdr_to_last_uncached_entry ex_mem_bad_offsets 0x12800) 0 0x12800
      (phdr_to_last_cached_entry ex_mem_bad_offsets 0x12800)"
  "ptable_entry_to_phdr ex_smem ex_mem_bad_offsets 0x13020 = 0x12800"
  "ptable_entry_size ex_mem_bad_offsets 0x13020 = 64"
  by (simp_all add: ex_eval_corrupt)

lemma ex_bad_header_frame:
  "\<not> (unat (0x12800 :: addr) \<le> unat x \<and> unat x < unat (0x12800 :: addr) + 12) \<Longrightarrow>
     ex_mem_bad_header x = ex_mem x"
  unfolding ex_mem_bad_header_def
  by (auto intro!: write_le32_outside write_le16_outside write_magic_outside
      [THEN trans] write_le16_outside [THEN trans] write_le32_outside [THEN trans])


text \<open>
  C2 (as amended). \<open>qcom_smem_partition_header\<close> rejects a header exactly when its magic,
  one of its two hosts or its size differs from what the table entry gives, or its uncached
  free offset exceeds its size. \<open>qcom_smem_alloc_private\<close> does not repeat this: of the
  header it only checks the two free offsets, returning \<open>-EINVAL\<close> with the memory untouched
  when the end of the uncached list is not between the header and the end of the cached list,
  or when the latter is beyond the end of the partition; and its result is the same for any
  two memories that differ only in the first twelve bytes of the header (magic, hosts, size).
\<close>

theorem alloc_private_checks_free_offsets_only:
  assumes "phdr = ptable_entry_to_phdr smem m entry"
    and "psz = ptable_entry_size m entry"
    and "endp = phdr_to_last_uncached_entry m phdr"
    and "cached = phdr_to_last_cached_entry m phdr"
  shows
    "(qcom_smem_partition_header smem m entry host0 host1 = None \<longleftrightarrow>
        (read_magic m phdr \<noteq> [0x24, 0x50, 0x52, 0x54] \<or> phdr_host0 m phdr \<noteq> host0 \<or>
         phdr_host1 m phdr \<noteq> host1 \<or> phdr_size m phdr \<noteq> psz \<or>
         phdr_offset_free_uncached m phdr > phdr_size m phdr)) \<and>
     (\<not> IN_PARTITION_RANGE endp 0 phdr cached \<or> cached > phdr + ucast psz \<longrightarrow>
        qcom_smem_alloc_private smem m entry item sz = (Inl EINVAL, m)) \<and>
     ((\<forall>x. \<not> (unat phdr \<le> unat x \<and> unat x < unat phdr + 12) \<longrightarrow> m' x = m x) \<and>
      (unat entry + 8 \<le> unat phdr \<or> unat phdr + 12 \<le> unat entry) \<and>
      unat entry + 8 \<le> 2 ^ 64 \<and> unat phdr + unat psz + 32 < 2 ^ 64 \<longrightarrow>
        fst (qcom_smem_alloc_private smem m' entry item sz) =
        fst (qcom_smem_alloc_private smem m entry item sz))"
proof (intro conjI impI)
  show "qcom_smem_partition_header smem m entry host0 host1 = None \<longleftrightarrow>
        (read_magic m phdr \<noteq> [0x24, 0x50, 0x52, 0x54] \<or> phdr_host0 m phdr \<noteq> host0 \<or>
         phdr_host1 m phdr \<noteq> host1 \<or> phdr_size m phdr \<noteq> psz \<or>
         phdr_offset_free_uncached m phdr > phdr_size m phdr)"
    unfolding assms(1,2)
    by (auto simp: qcom_smem_partition_header_def Let_def memcmp_magic_def SMEM_PART_MAGIC_def
        ptable_entry_to_phdr_def)
next
  assume "\<not> IN_PARTITION_RANGE endp 0 phdr cached \<or> cached > phdr + ucast psz"
  then show "qcom_smem_alloc_private smem m entry item sz = (Inl EINVAL, m)"
    by (auto simp: qcom_smem_alloc_private_def Let_def assms [symmetric])
next
  assume a: "(\<forall>x. \<not> (unat phdr \<le> unat x \<and> unat x < unat phdr + 12) \<longrightarrow> m' x = m x) \<and>
      (unat entry + 8 \<le> unat phdr \<or> unat phdr + 12 \<le> unat entry) \<and>
      unat entry + 8 \<le> 2 ^ 64 \<and> unat phdr + unat psz + 32 < 2 ^ 64"
  then have fr: "\<And>x. \<not> (unat phdr \<le> unat x \<and> unat x < unat phdr + 12) \<Longrightarrow> m' x = m x"
    and en: "unat entry + 8 \<le> unat phdr \<or> unat phdr + 12 \<le> unat entry"
      "unat entry + 8 \<le> 2 ^ 64"
    and nw: "unat phdr + unat psz + 32 < 2 ^ 64"
    by simp_all
  let ?uf = "phdr_offset_free_uncached m phdr"
  let ?cf = "phdr_offset_free_cached m phdr"
  have e4: "unat (entry + 4) = unat entry + 4"
    using unat_add_num [of entry 4] en(2) by simp
  have p: "unat (phdr + 12) = unat phdr + 12" "unat (phdr + 16) = unat phdr + 16"
    "unat (phdr + 32) = unat phdr + 32"
    using unat_add_num [of phdr 12] unat_add_num [of phdr 16] unat_add_num [of phdr 32] nw
    by simp_all
  have "read_le32 m' entry = read_le32 m entry"
    using en by (intro read_le32_agree) (auto intro!: fr)
  moreover have "read_le32 m' (entry + 4) = read_le32 m (entry + 4)"
    using en e4 by (intro read_le32_agree) (auto intro!: fr)
  ultimately have pe: "phdr = ptable_entry_to_phdr smem m' entry"
    "psz = ptable_entry_size m' entry"
    by (simp_all add: assms(1,2) ptable_entry_to_phdr_def ptable_entry_offset_def
        ptable_entry_size_def)
  have uf: "?uf = phdr_offset_free_uncached m' phdr"
    unfolding phdr_offset_free_uncached_def
    using p nw by (intro read_le32_agree [symmetric]) (auto intro!: fr)
  have cf: "?cf = phdr_offset_free_cached m' phdr"
    unfolding phdr_offset_free_cached_def
    using p nw by (intro read_le32_agree [symmetric]) (auto intro!: fr)
  note eq = qcom_smem_alloc_private_eq [OF assms(1,2) refl refl, of item sz]
  note eq' = qcom_smem_alloc_private_eq [OF pe uf cf, of item sz]
  show "fst (qcom_smem_alloc_private smem m' entry item sz) =
        fst (qcom_smem_alloc_private smem m entry item sz)"
  proof (cases "\<not> IN_PARTITION_RANGE (phdr + ucast ?uf) 0 phdr (phdr + ucast ?cf) \<or>
         phdr + ucast ?cf > phdr + ucast psz")
    case True
    then show ?thesis unfolding eq eq' by auto
  next
    case False
    then have rng: "IN_PARTITION_RANGE (phdr + ucast ?uf) 0 phdr (phdr + ucast ?cf)"
      "\<not> phdr + ucast ?cf > phdr + ucast psz" by simp_all
    note g = partition_geometry [OF rng]
    have "alloc_private_walk m' (phdr + 32) (phdr + ucast ?uf) item =
        alloc_private_walk m (phdr + 32) (phdr + ucast ?uf) item"
      using g p nw by (intro alloc_walk_agree) (auto intro!: fr)
    then show ?thesis
      unfolding eq eq' using rng by (auto split: loop_exit.splits)
  qed
qed

theorem alloc_private_checks_free_offsets_only_witness:
  "qcom_smem_partition_header ex_smem ex_mem 0x13020 0 5 = Some 0x12800 \<and>
   qcom_smem_alloc_private ex_smem ex_mem_bad_offsets 0x13020 8 5 =
     (Inl EINVAL, ex_mem_bad_offsets) \<and>
   fst (qcom_smem_alloc_private ex_smem ex_mem_bad_header 0x13020 8 5) =
     fst (qcom_smem_alloc_private ex_smem ex_mem 0x13020 8 5)"
proof -
  note t1 = alloc_private_checks_free_offsets_only
    [OF ex_bad_offsets(2) [symmetric] ex_bad_offsets(3) [symmetric] refl refl,
      where item = 8 and sz = 5]
  note t2 = alloc_private_checks_free_offsets_only
    [OF ex_geometry(1) [symmetric] ex_geometry(2) [symmetric] refl refl,
      where m' = ex_mem_bad_header and item = 8 and sz = 5]
  have "qcom_smem_alloc_private ex_smem ex_mem_bad_offsets 0x13020 8 5 =
     (Inl EINVAL, ex_mem_bad_offsets)"
    using t1 ex_bad_offsets(1) by simp
  moreover have "fst (qcom_smem_alloc_private ex_smem ex_mem_bad_header 0x13020 8 5) =
     fst (qcom_smem_alloc_private ex_smem ex_mem 0x13020 8 5)"
    using t2 ex_bad_header_frame by simp
  ultimately show ?thesis using ex_bad_header(3) by simp
qed


text \<open>
  C2 as stated fails. The header of \<open>ex_mem_bad_header\<close> has a wrong magic, a wrong second host
  and a wrong size, and \<open>qcom_smem_partition_header\<close> rejects it; an allocation of item 8 with
  5 bytes in that partition nevertheless succeeds.
\<close>

theorem bad_header_magic_not_checked:
  "read_magic ex_mem_bad_header 0x12800 \<noteq> SMEM_PART_MAGIC \<and>
   qcom_smem_partition_header ex_smem ex_mem_bad_header 0x13020 0 5 = None \<and>
   fst (qcom_smem_alloc_private ex_smem ex_mem_bad_header 0x13020 8 5) = Inr ()"
  by (simp add: ex_bad_header SMEM_PART_MAGIC_def)

end
